theory Spec2Isabelle
  imports Complex_Main
begin

unbundle bit_operations_syntax

section \<open>Rasters, images and service errors\<close>

text \<open>
  The notebook \<^verbatim>\<open>LT5-LE7 SR Spectral Indices.ipynb\<close> builds every raster by calling the
  raster algebra of a remote imagery service. A raster is a function from pixel
  coordinates to an optional value: \<open>None\<close> is a masked (missing) pixel. Raw Landsat
  bands hold integers; rescaled bands hold reals (the service's floating-point numbers
  are idealised as exact reals). An image is an ordered list of named bands together
  with its string properties. A request that names a band the image does not have is
  answered by the service with an error, which is a value of type \<open>ee_error\<close> here
  (as is Python's own \<^verbatim>\<open>IndexError\<close> in the export loop).

  The operations of the service are not part of the repository. Each one is given
  below by the contract that the service documents for it, next to the notebook function
  that calls it; the notebook's own functions keep their names and compose these
  operations call by call.
\<close>

type_synonym pixel = "int \<times> int"

type_synonym 'v raster = "pixel \<Rightarrow> 'v option"

datatype ee_error = BandNotFound string | IncompatibleBands | IndexError

record timestamp =
  t_year :: int
  t_doy :: nat
  t_millis :: nat

text \<open>A raw scene of the Landsat surface-reflectance archive.\<close>

record scene =
  raw_bands :: "(string \<times> int raster) list"
  SENSING_TIME :: string
  CLOUD_COVER_LAND :: real
  time_start :: timestamp
  footprint :: "pixel list"

record image =
  bands :: "(string \<times> real raster) list"
  props :: "string \<rightharpoonup> string"

definition ee_bind :: "ee_error + 'a \<Rightarrow> ('a \<Rightarrow> ee_error + 'b) \<Rightarrow> ee_error + 'b" where
  "ee_bind m f = (case m of Inl e \<Rightarrow> Inl e | Inr x \<Rightarrow> f x)"

text \<open>\<^verbatim>\<open>collection.map(f)\<close>: the first image on which \<open>f\<close> fails fails the whole request.\<close>

fun ee_map :: "('a \<Rightarrow> ee_error + 'b) \<Rightarrow> 'a list \<Rightarrow> ee_error + 'b list" where
  "ee_map f [] = Inr []"
| "ee_map f (x # xs) =
     (case f x of Inl e \<Rightarrow> Inl e
      | Inr y \<Rightarrow> (case ee_map f xs of Inl e \<Rightarrow> Inl e | Inr ys \<Rightarrow> Inr (y # ys)))"

text \<open>The value of band \<open>b\<close> of an image at pixel \<open>p\<close>; a band the image lacks has no value.\<close>

definition pixel_value :: "(string \<times> 'v raster) list \<Rightarrow> string \<Rightarrow> pixel \<Rightarrow> 'v option" where
  "pixel_value bs b p = (case map_of bs b of None \<Rightarrow> None | Some r \<Rightarrow> r p)"

text \<open>The unmasked inputs of a reducer: the service's reducers skip masked values.\<close>

definition unmasked :: "'v option list \<Rightarrow> 'v list" where
  "unmasked vs = List.map_filter id vs"

section \<open>Raster algebra used by the preprocessor\<close>

text \<open>\<^verbatim>\<open>img.select(name)\<close> for a single band.\<close>

definition select_band :: "(string \<times> 'v raster) list \<Rightarrow> string \<Rightarrow> ee_error + 'v raster" where
  "select_band bs b = (case map_of bs b of None \<Rightarrow> Inl (BandNotFound b) | Some r \<Rightarrow> Inr r)"

text \<open>\<^verbatim>\<open>img.select(names, new_names)\<close>: the named bands in the order asked for, renamed.\<close>

definition select_rename ::
  "(string \<times> 'v raster) list \<Rightarrow> string list \<Rightarrow> string list \<Rightarrow> ee_error + (string \<times> 'v raster) list" where
  "select_rename bs olds news =
     ee_map (\<lambda>(old, new). ee_bind (select_band bs old) (\<lambda>r. Inr (new, r))) (zip olds news)"

definition bitwiseAnd :: "int raster \<Rightarrow> int \<Rightarrow> int raster" where
  "bitwiseAnd r c = (\<lambda>p. map_option (\<lambda>v. v AND c) (r p))"

definition eq_const :: "int raster \<Rightarrow> int \<Rightarrow> int raster" where
  "eq_const r c = (\<lambda>p. map_option (\<lambda>v. if v = c then 1 else 0) (r p))"

text \<open>\<^verbatim>\<open>a.And(b)\<close>: 1 where both are non-zero; masked where either is masked.\<close>

definition And_raster :: "int raster \<Rightarrow> int raster \<Rightarrow> int raster" where
  "And_raster a b =
     (\<lambda>p. case (a p, b p) of
        (Some x, Some y) \<Rightarrow> Some (if x \<noteq> 0 \<and> y \<noteq> 0 then 1 else 0)
      | _ \<Rightarrow> None)"

text \<open>\<^verbatim>\<open>ee.Reducer.anyNonZero()\<close>: 1 if any of its inputs is non-zero, 0 otherwise.\<close>

definition anyNonZero :: "int list \<Rightarrow> int" where
  "anyNonZero vs = (if list_ex (\<lambda>v. v \<noteq> 0) vs then 1 else 0)"

text \<open>\<^verbatim>\<open>ee.Kernel.square(r)\<close>: the window of side \<open>2 r + 1\<close> centred on the pixel.\<close>

definition square :: "nat \<Rightarrow> pixel \<Rightarrow> pixel list" where
  "square r p =
     concat (map (\<lambda>dx. map (\<lambda>dy. (fst p + dx, snd p + dy)) [- int r..int r]) [- int r..int r])"

text \<open>
  \<^verbatim>\<open>r.reduceNeighborhood(reducer, kernel)\<close>: the reducer applied to the unmasked values
  in the window around each pixel; with the default \<^verbatim>\<open>skipMasked\<close> the output is masked
  where the input pixel is. Pixels beyond the raster's edge are masked, hence skipped.
\<close>

definition reduceNeighborhood ::
  "(int list \<Rightarrow> int) \<Rightarrow> (pixel \<Rightarrow> pixel list) \<Rightarrow> int raster \<Rightarrow> int raster" where
  "reduceNeighborhood reducer window r =
     (\<lambda>p. case r p of
        None \<Rightarrow> None
      | Some _ \<Rightarrow> Some (reducer (unmasked (map r (window p)))))"

text \<open>
  \<^verbatim>\<open>img.updateMask(mask)\<close>: every band is masked where the mask is zero or itself masked,
  and keeps its own mask elsewhere.
\<close>

definition updateMask :: "(string \<times> 'v raster) list \<Rightarrow> int raster \<Rightarrow> (string \<times> 'v raster) list" where
  "updateMask bs msk =
     map (\<lambda>(b, r). (b, \<lambda>p. case msk p of
                             None \<Rightarrow> None
                           | Some m \<Rightarrow> if m = 0 then None else r p)) bs"

text \<open>\<^verbatim>\<open>img.divide(c)\<close>: every band of the image, divided by the constant.\<close>

definition divide :: "(string \<times> int raster) list \<Rightarrow> int \<Rightarrow> (string \<times> real raster) list" where
  "divide bs c = map (\<lambda>(b, r). (b, \<lambda>p. map_option (\<lambda>v. real_of_int v / real_of_int c) (r p))) bs"

section \<open>The per-image preprocessor\<close>

text \<open>The clear-sky mask that \<^verbatim>\<open>cloud_mask\<close> computes from the quality band.\<close>

definition clear_sky_mask :: "int raster \<Rightarrow> int raster" where
  "clear_sky_mask qa =
     (let cloud_shadow_bit_mask = 2 ^ 3;
          clouds_bit_mask = 2 ^ 5;
          water_mask = 2 ^ 2
      in reduceNeighborhood anyNonZero (square 1)
           (And_raster
              (And_raster (eq_const (bitwiseAnd qa cloud_shadow_bit_mask) 0)
                          (eq_const (bitwiseAnd qa clouds_bit_mask) 0))
              (eq_const (bitwiseAnd qa water_mask) 0)))"

definition cloud_mask :: "scene \<Rightarrow> ee_error + image" where
  "cloud_mask img =
     ee_bind (select_band (raw_bands img) ''pixel_qa'') (\<lambda>qa.
     ee_bind (select_rename (divide (updateMask (raw_bands img) (clear_sky_mask qa)) 10000)
                [''B1'', ''B2'', ''B3'', ''B4'', ''B5'', ''B7'', ''pixel_qa'']
                [''blue'', ''green'', ''red'', ''NIR'', ''SWIR1'', ''SWIR2'', ''pixel_qa'']) (\<lambda>bs.
     Inr \<lparr>bands = bs,
          props = [''date'' \<mapsto> SENSING_TIME img,
                   ''year'' \<mapsto> take 4 (SENSING_TIME img)]\<rparr>))"

section \<open>The index calculator\<close>

text \<open>
  \<^verbatim>\<open>img.normalizedDifference([a, b])\<close> belongs to the imagery service, not to the
  notebook. Its contract, as the service documents it and as section 4.4 of the
  specification states it for the zero sum: the single output band is named \<^verbatim>\<open>nd\<close> and
  holds \<open>(a - b) / (a + b)\<close>; the output pixel is masked where either input is masked,
  where either input is negative, and where \<open>a + b = 0\<close>; the properties of the input
  image are not carried over (which is why \<^verbatim>\<open>ndvi\<close> sets \<^verbatim>\<open>year\<close> again).
\<close>

definition normalizedDifference ::
  "(string \<times> real raster) list \<Rightarrow> string \<Rightarrow> string \<Rightarrow> ee_error + (string \<times> real raster) list" where
  "normalizedDifference bs a b =
     ee_bind (select_band bs a) (\<lambda>ra.
     ee_bind (select_band bs b) (\<lambda>rb.
     Inr [(''nd'', \<lambda>p. case (ra p, rb p) of
                          (Some x, Some y) \<Rightarrow>
                            if x < 0 \<or> y < 0 \<or> x + y = 0 then None
                            else Some ((x - y) / (x + y))
                        | _ \<Rightarrow> None)]))"

definition ndvi :: "image \<Rightarrow> ee_error + image" where
  "ndvi img =
     ee_bind (normalizedDifference (bands img) ''NIR'' ''red'') (\<lambda>bs.
     Inr \<lparr>bands = bs,
          props = (Map.empty(''variable'' \<mapsto> ''NDVI''))(''year'' := props img ''year'')\<rparr>)"

section \<open>The annual compositor\<close>

text \<open>\<^verbatim>\<open>collection.filterMetadata(name, 'equals', value)\<close> on the string properties.\<close>

definition filterMetadata_equals :: "image list \<Rightarrow> string \<Rightarrow> string \<Rightarrow> image list" where
  "filterMetadata_equals coll name v = filter (\<lambda>i. props i name = Some v) coll"

text \<open>
  The reducers behind \<^verbatim>\<open>collection.median()\<close> and \<^verbatim>\<open>collection.max()\<close>, on the unmasked
  values of one band at one pixel. With no input the output pixel is masked. The median
  of an even number of inputs is the mean of the two middle ones (section 4.3 of the
  specification).
\<close>

definition median :: "real list \<Rightarrow> real option" where
  "median vs =
     (let s = sort vs; n = length s
      in if n = 0 then None
         else if odd n then Some (s ! (n div 2))
         else Some ((s ! (n div 2 - 1) + s ! (n div 2)) / 2))"

definition maximum :: "real list \<Rightarrow> real option" where
  "maximum vs = (case vs of [] \<Rightarrow> None | v # ws \<Rightarrow> Some (fold max ws v))"

text \<open>
  Reducing a collection of images band by band and pixel by pixel. The output has the
  bands of the first image, under their own names; an empty collection gives an image
  with no band at all; a collection whose images do not all have the band list of the
  first one is refused (the service wants a homogeneous collection). The output carries
  no property.
\<close>

definition reduce_images ::
  "(real list \<Rightarrow> real option) \<Rightarrow> image list \<Rightarrow> ee_error + (string \<times> real raster) list" where
  "reduce_images reducer coll =
     (case coll of
        [] \<Rightarrow> Inr []
      | i # rest \<Rightarrow>
          if list_all (\<lambda>j. map fst (bands j) = map fst (bands i)) rest
          then Inr (map (\<lambda>b. (b, \<lambda>p. reducer (unmasked (map (\<lambda>j. pixel_value (bands j) b p) coll))))
                      (map fst (bands i)))
          else Inl IncompatibleBands)"

definition annual_composite_median :: "image list \<Rightarrow> string \<Rightarrow> ee_error + image" where
  "annual_composite_median collection year =
     ee_bind (reduce_images median (filterMetadata_equals collection ''year'' year)) (\<lambda>bs.
     Inr \<lparr>bands = bs, props = [''year'' \<mapsto> year]\<rparr>)"

definition annual_composite_maximum_ndvi :: "image list \<Rightarrow> string \<Rightarrow> ee_error + image" where
  "annual_composite_maximum_ndvi collection year =
     ee_bind (ee_map ndvi (filterMetadata_equals collection ''year'' year)) (\<lambda>indices.
     ee_bind (reduce_images maximum indices) (\<lambda>bs.
     Inr \<lparr>bands = bs, props = [''year'' \<mapsto> year]\<rparr>))"

section \<open>The collection assembler\<close>

text \<open>
  A scene's acquisition time is kept as calendar year, day of the year (from 1) and
  milliseconds into the day; \<open>before\<close> is the chronological order.
\<close>

definition before :: "timestamp \<Rightarrow> timestamp \<Rightarrow> bool" where
  "before a b =
     (t_year a < t_year b \<or>
      (t_year a = t_year b \<and>
        (t_doy a < t_doy b \<or> (t_doy a = t_doy b \<and> t_millis a < t_millis b))))"

text \<open>The date literals of the notebook: midnight of 1 January 1995 and of 31 December 2015.\<close>

definition date_1995_01_01 :: timestamp where
  "date_1995_01_01 = \<lparr>t_year = 1995, t_doy = 1, t_millis = 0\<rparr>"

definition date_2015_12_31 :: timestamp where
  "date_2015_12_31 = \<lparr>t_year = 2015, t_doy = 365, t_millis = 0\<rparr>"

text \<open>\<^verbatim>\<open>collection.filterDate(start, end)\<close>: the start is inclusive, the end exclusive.\<close>

definition filterDate :: "scene list \<Rightarrow> timestamp \<Rightarrow> timestamp \<Rightarrow> scene list" where
  "filterDate coll start end =
     filter (\<lambda>s. \<not> before (time_start s) start \<and> before (time_start s) end) coll"

text \<open>\<^verbatim>\<open>collection.filter(ee.Filter.dayOfYear(lo, hi))\<close>, both ends inclusive.\<close>

definition filter_dayOfYear :: "scene list \<Rightarrow> nat \<Rightarrow> nat \<Rightarrow> scene list" where
  "filter_dayOfYear coll lo hi =
     filter (\<lambda>s. lo \<le> t_doy (time_start s) \<and> t_doy (time_start s) \<le> hi) coll"

text \<open>\<^verbatim>\<open>collection.filterMetadata('CLOUD_COVER_LAND', 'less_than', c)\<close>.\<close>

definition filterMetadata_less_than :: "scene list \<Rightarrow> real \<Rightarrow> scene list" where
  "filterMetadata_less_than coll c = filter (\<lambda>s. CLOUD_COVER_LAND s < c) coll"

text \<open>\<^verbatim>\<open>collection.filterBounds(region)\<close>: the scenes whose footprint meets the region.\<close>

definition filterBounds :: "scene list \<Rightarrow> pixel list \<Rightarrow> scene list" where
  "filterBounds coll region = filter (\<lambda>s. list_ex (\<lambda>p. p \<in> set region) (footprint s)) coll"

definition reflectance_bands :: "string list" where
  "reflectance_bands = [''blue'', ''green'', ''red'', ''NIR'', ''SWIR1'', ''SWIR2'']"

text \<open>\<^verbatim>\<open>img.select('blue', ..., 'SWIR2')\<close>: the properties of the image are kept.\<close>

definition select_reflectance :: "image \<Rightarrow> ee_error + image" where
  "select_reflectance img =
     ee_bind (select_rename (bands img) reflectance_bands reflectance_bands) (\<lambda>bs.
     Inr (img\<lparr>bands := bs\<rparr>))"

definition lt5_collection :: "scene list \<Rightarrow> pixel list \<Rightarrow> ee_error + image list" where
  "lt5_collection archive detroit_msa =
     ee_bind (ee_map cloud_mask
                (filterBounds
                   (filterMetadata_less_than
                      (filter_dayOfYear (filterDate archive date_1995_01_01 date_2015_12_31) 121 273)
                      80)
                   detroit_msa))
       (ee_map select_reflectance)"

definition le7_collection :: "scene list \<Rightarrow> pixel list \<Rightarrow> ee_error + image list" where
  "le7_collection archive detroit_msa =
     ee_bind (ee_map cloud_mask
                (filterBounds
                   (filterMetadata_less_than
                      (filter_dayOfYear (filterDate archive date_1995_01_01 date_2015_12_31) 121 273)
                      80)
                   detroit_msa))
       (ee_map select_reflectance)"

text \<open>\<^verbatim>\<open>a.merge(b)\<close>: the images of \<open>a\<close> followed by those of \<open>b\<close>.\<close>

definition lt5_le7_collection :: "scene list \<Rightarrow> scene list \<Rightarrow> pixel list \<Rightarrow> ee_error + image list" where
  "lt5_le7_collection lt5_archive le7_archive detroit_msa =
     ee_bind (lt5_collection lt5_archive detroit_msa) (\<lambda>lt5.
     ee_bind (le7_collection le7_archive detroit_msa) (\<lambda>le7.
     Inr (lt5 @ le7)))"

section \<open>Static masks and the export driver\<close>

definition constant_image :: "int \<Rightarrow> int raster" where
  "constant_image c = (\<lambda>p. Some c)"

text \<open>
  \<^verbatim>\<open>input.where(test, value)\<close>: the value where the test is non-zero, the input elsewhere;
  where the test or the value is masked the input is used, and a masked input stays masked.
\<close>

definition where_raster :: "int raster \<Rightarrow> int raster \<Rightarrow> int raster \<Rightarrow> int raster" where
  "where_raster input test val =
     (\<lambda>p. case input p of
        None \<Rightarrow> None
      | Some i \<Rightarrow> (case (test p, val p) of
                    (Some t, Some v) \<Rightarrow> Some (if t \<noteq> 0 then v else i)
                  | _ \<Rightarrow> Some i))"

text \<open>The water mask, from the \<^verbatim>\<open>max_extent\<close> band of the surface-water layer.\<close>

definition water :: "int raster \<Rightarrow> int raster" where
  "water max_extent = where_raster (constant_image 1) max_extent (constant_image 0)"

definition combined_dates :: "string list" where
  "combined_dates =
     [''1995'', ''1996'', ''1997'', ''1998'', ''1999'', ''2000'', ''2001'', ''2002'', ''2003'',
      ''2004'', ''2005'', ''2006'', ''2007'', ''2008'', ''2009'', ''2010'', ''2011'', ''2012'',
      ''2013'', ''2014'', ''2015'']"

text \<open>\<^verbatim>\<open>img.clip(region)\<close>: data outside the region is masked; the properties are kept.\<close>

definition clip :: "image \<Rightarrow> pixel list \<Rightarrow> image" where
  "clip img region =
     img\<lparr>bands := map (\<lambda>(b, r). (b, \<lambda>p. if p \<in> set region then r p else None)) (bands img)\<rparr>"

definition updateMask_image :: "image \<Rightarrow> int raster \<Rightarrow> image" where
  "updateMask_image img msk = img\<lparr>bands := updateMask (bands img) msk\<rparr>"

definition composites_ndvi_first :: "image list \<Rightarrow> pixel list \<Rightarrow> ee_error + image list" where
  "composites_ndvi_first lt5_le7 detroit_msa =
     ee_bind (ee_map (\<lambda>year. annual_composite_maximum_ndvi lt5_le7 year) combined_dates) (\<lambda>cs.
     Inr (map (\<lambda>img. clip img detroit_msa) cs))"

text \<open>Python's \<^verbatim>\<open>'%d' % n\<close>.\<close>

definition digit :: "nat \<Rightarrow> char" where
  "digit d = ''0123456789'' ! d"

function str_nat :: "nat \<Rightarrow> string" where
  "str_nat n = (if n < 10 then [digit n] else str_nat (n div 10) @ [digit (n mod 10)])"
  by pat_completeness auto
termination
  by (relation "measure id") auto

definition format_d :: "int \<Rightarrow> string" where
  "format_d n = (if n < 0 then ''-'' @ str_nat (nat (- n)) else str_nat (nat n))"

text \<open>Python's \<^verbatim>\<open>xs[i]\<close> for a non-negative index.\<close>

definition python_index :: "'a list \<Rightarrow> nat \<Rightarrow> ee_error + 'a" where
  "python_index xs i = (if i < length xs then Inr (xs ! i) else Inl IndexError)"

text \<open>The corners of the bounding box of a region.\<close>

definition bounds :: "pixel list \<Rightarrow> pixel list" where
  "bounds region =
     (case region of
        [] \<Rightarrow> []
      | _ \<Rightarrow> (let xs = map fst region; ys = map snd region
              in [(Min (set xs), Min (set ys)), (Max (set xs), Min (set ys)),
                  (Max (set xs), Max (set ys)), (Min (set xs), Max (set ys))]))"

record export_task =
  task_image :: image
  description :: string
  region :: "pixel list"
  folder :: string
  scale :: nat
  crs :: string

text \<open>
  The export loop. Its result is the list of the jobs started, in the order of
  submission; \<open>cdl\<close> is the non-cultivated mask (1 where the land was never cultivated
  in 2013 to 2015, 0 elsewhere).
\<close>

definition export_tasks ::
  "image list \<Rightarrow> int raster \<Rightarrow> int raster \<Rightarrow> pixel list \<Rightarrow> ee_error + export_task list" where
  "export_tasks composites water_img cdl detroit_msa =
     ee_map (\<lambda>i.
        ee_bind (python_index composites i) (\<lambda>img.
        let img_masked = updateMask_image (updateMask_image img water_img) cdl
        in ee_bind (python_index [1995..2015] i) (\<lambda>year.
           Inr \<lparr>task_image = img_masked,
                description = ''LT5-LE7_SR_Maximum_NDVI_'' @ format_d year,
                region = bounds detroit_msa,
                folder = ''EarthEngine'',
                scale = 30,
                crs = ''EPSG:32617''\<rparr>)))
       [0..<length composites]"

definition export_driver ::
  "image list \<Rightarrow> int raster \<Rightarrow> int raster \<Rightarrow> pixel list \<Rightarrow> ee_error + export_task list" where
  "export_driver lt5_le7 max_extent cdl detroit_msa =
     ee_bind (composites_ndvi_first lt5_le7 detroit_msa) (\<lambda>composites.
     export_tasks composites (water max_extent) cdl detroit_msa)"

section \<open>Derived notions and sample inputs\<close>

text \<open>
  What the preprocessor leaves of raw band \<open>old\<close> at pixel \<open>p\<close>: nothing where the
  clear-sky mask is zero or masked, the raw value divided by 10000 elsewhere.
\<close>

definition preprocessed_value :: "scene \<Rightarrow> string \<Rightarrow> pixel \<Rightarrow> real option" where
  "preprocessed_value img old p =
     (case map_of (raw_bands img) ''pixel_qa'' of
        None \<Rightarrow> None
      | Some qa \<Rightarrow>
          (case clear_sky_mask qa p of
             None \<Rightarrow> None
           | Some m \<Rightarrow> if m = 0 then None
                       else map_option (\<lambda>k. real_of_int k / 10000) (pixel_value (raw_bands img) old p)))"

text \<open>
  A synthetic scene with constant raw bands (NIR 5000, red 2000) and a given quality
  band; \<open>isolated_cloud\<close> has the cloud bit (value 32) at pixel \<open>(0, 0)\<close> only.
\<close>

definition example_scene :: "int raster \<Rightarrow> scene" where
  "example_scene qa =
     \<lparr>raw_bands = [(''B1'', constant_image 300), (''B2'', constant_image 600),
                   (''B3'', constant_image 2000), (''B4'', constant_image 5000),
                   (''B5'', constant_image 2500), (''B7'', constant_image 1200),
                   (''pixel_qa'', qa)],
      SENSING_TIME = ''2009-06-17T16:02:11.1234560Z'',
      CLOUD_COVER_LAND = 12,
      time_start = \<lparr>t_year = 2009, t_doy = 168, t_millis = 57731123\<rparr>,
      footprint = [(0, 0)]\<rparr>"

definition isolated_cloud :: "int raster" where
  "isolated_cloud = (\<lambda>p. Some (if p = (0, 0) then 32 else 0))"

text \<open>A six-band image with constant bands, for concrete inputs of the index calculator.\<close>

definition sample_image :: "string \<Rightarrow> real \<Rightarrow> real \<Rightarrow> image" where
  "sample_image year nir red =
     \<lparr>bands = [(''blue'', \<lambda>p. Some (3 / 100)), (''green'', \<lambda>p. Some (6 / 100)),
                (''red'', \<lambda>p. Some red), (''NIR'', \<lambda>p. Some nir),
                (''SWIR1'', \<lambda>p. Some (1 / 4)), (''SWIR2'', \<lambda>p. Some (12 / 100))],
      props = [''year'' \<mapsto> year]\<rparr>"

text \<open>
  The unmasked values that the scenes labelled with a year contribute at one band and
  pixel; the index of a single scene; the unmasked per-scene indices of a year.
\<close>

definition contributions :: "image list \<Rightarrow> string \<Rightarrow> string \<Rightarrow> pixel \<Rightarrow> real list" where
  "contributions collection year b p =
     unmasked (map (\<lambda>i. pixel_value (bands i) b p)
                 (filter (\<lambda>i. props i ''year'' = Some year) collection))"

definition scene_index :: "image \<Rightarrow> pixel \<Rightarrow> real option" where
  "scene_index img p =
     (case ndvi img of Inl e \<Rightarrow> None | Inr out \<Rightarrow> pixel_value (bands out) ''nd'' p)"

definition index_contributions :: "image list \<Rightarrow> string \<Rightarrow> pixel \<Rightarrow> real list" where
  "index_contributions collection year p =
     unmasked (map (\<lambda>i. scene_index i p)
                 (filter (\<lambda>i. props i ''year'' = Some year) collection))"

text \<open>
  A small collection: two scenes of 2009 with indices 3/10 and 7/10, one scene of 2010,
  and a third scene of 2009 that is masked everywhere.
\<close>

definition sample_collection :: "image list" where
  "sample_collection =
     [sample_image ''2009'' (13 / 20) (7 / 20),
      sample_image ''2010'' (9 / 10) (1 / 10),
      sample_image ''2009'' (17 / 20) (3 / 20),
      clip (sample_image ''2009'' (19 / 20) (1 / 20)) []]"

text \<open>
  The survival condition in the specification's words: the footprint meets the region,
  the date lies between 1 January 1995 and 31 December 2015 (both days included), the
  day of the year lies in 121 to 273, and the cloud cover is below 80.
\<close>

definition on_or_after :: "timestamp \<Rightarrow> int \<Rightarrow> nat \<Rightarrow> bool" where
  "on_or_after ts y d = (y < t_year ts \<or> (t_year ts = y \<and> d \<le> t_doy ts))"

definition on_or_before :: "timestamp \<Rightarrow> int \<Rightarrow> nat \<Rightarrow> bool" where
  "on_or_before ts y d = (t_year ts < y \<or> (t_year ts = y \<and> t_doy ts \<le> d))"

definition survives :: "pixel list \<Rightarrow> scene \<Rightarrow> bool" where
  "survives detroit_msa s =
     (list_ex (\<lambda>p. p \<in> set detroit_msa) (footprint s) \<and>
      on_or_after (time_start s) 1995 1 \<and> on_or_before (time_start s) 2015 365 \<and>
      121 \<le> t_doy (time_start s) \<and> t_doy (time_start s) \<le> 273 \<and>
      CLOUD_COVER_LAND s < 80)"

text \<open>What the assembler does to one surviving scene: \<^verbatim>\<open>cloud_mask\<close>, then the band selection.\<close>

definition preprocess :: "scene \<Rightarrow> ee_error + image" where
  "preprocess s = ee_bind (cloud_mask s) select_reflectance"

text \<open>The synthetic scene with the quality value 66 (clear, no flag bit set) everywhere.\<close>

definition clear_scene :: scene where
  "clear_scene = example_scene (constant_image 66)"

text \<open>A surface-water layer that has water at pixel \<open>(0, 0)\<close> only.\<close>

definition sample_extent :: "int raster" where
  "sample_extent = (\<lambda>p. if p = (0, 0) then Some 1 else Some 0)"

section \<open>Auxiliary facts\<close>

lemma ee_bind_Inr_iff: "ee_bind m f = Inr y \<longleftrightarrow> (\<exists>x. m = Inr x \<and> f x = Inr y)"
  by (cases m) (simp_all add: ee_bind_def)

lemma ee_bind_Inr [simp]: "ee_bind (Inr x) f = f x"
  by (simp add: ee_bind_def)

lemma ee_bind_Inl [simp]: "ee_bind (Inl e) f = Inl e"
  by (simp add: ee_bind_def)

lemma ee_map_Cons_Inr_iff:
  "ee_map f (x # xs) = Inr zs \<longleftrightarrow> (\<exists>y ys. zs = y # ys \<and> f x = Inr y \<and> ee_map f xs = Inr ys)"
  by (cases "f x"; cases "ee_map f xs") auto

lemma ee_map_Inr_iff: "ee_map f xs = Inr ys \<longleftrightarrow> list_all2 (\<lambda>x y. f x = Inr y) xs ys"
proof (induction xs arbitrary: ys)
  case Nil
  show ?case by (cases ys) simp_all
next
  case (Cons x xs)
  show ?case
    unfolding ee_map_Cons_Inr_iff list_all2_Cons1 Cons.IH ..
qed

lemma ee_map_total: "(\<And>x. x \<in> set xs \<Longrightarrow> f x = Inr (g x)) \<Longrightarrow> ee_map f xs = Inr (map g xs)"
  by (induction xs) auto

lemma map_of_updateMask:
  "map_of (updateMask bs m) b =
     map_option (\<lambda>r p. case m p of None \<Rightarrow> None | Some v \<Rightarrow> if v = 0 then None else r p) (map_of bs b)"
  by (induction bs) (auto simp: updateMask_def fun_eq_iff split: option.splits)

lemma map_of_divide:
  "map_of (divide bs c) b =
     map_option (\<lambda>r p. map_option (\<lambda>v. real_of_int v / real_of_int c) (r p)) (map_of bs b)"
  by (induction bs) (auto simp: divide_def)

lemma pixel_value_rescaled:
  "pixel_value (divide (updateMask bs m) c) b p =
     (case m p of
        None \<Rightarrow> None
      | Some v \<Rightarrow> if v = 0 then None
                  else map_option (\<lambda>k. real_of_int k / real_of_int c) (pixel_value bs b p))"
  by (simp add: pixel_value_def map_of_divide map_of_updateMask split: option.splits)

lemma select_band_Inr_iff: "select_band bs b = Inr r \<longleftrightarrow> map_of bs b = Some r"
  by (simp add: select_band_def split: option.splits)

lemma select_rename_Inr:
  assumes "select_rename bs olds news = Inr out"
  shows "list_all2 (\<lambda>(old, new) (n, r). n = new \<and> map_of bs old = Some r) (zip olds news) out"
proof -
  have "list_all2 (\<lambda>x y. (case x of (old, new) \<Rightarrow> ee_bind (select_band bs old) (\<lambda>r. Inr (new, r))) = Inr y)
          (zip olds news) out"
    using assms by (simp add: select_rename_def ee_map_Inr_iff)
  then show ?thesis
    by (rule list_all2_mono) (auto simp: ee_bind_Inr_iff select_band_Inr_iff)
qed

lemma cloud_mask_bands:
  assumes "cloud_mask img = Inr out"
  shows "\<exists>qa. map_of (raw_bands img) ''pixel_qa'' = Some qa \<and>
           list_all2 (\<lambda>(old, new) (n, r). n = new \<and>
                map_of (divide (updateMask (raw_bands img) (clear_sky_mask qa)) 10000) old = Some r)
             (zip [''B1'', ''B2'', ''B3'', ''B4'', ''B5'', ''B7'', ''pixel_qa'']
                  [''blue'', ''green'', ''red'', ''NIR'', ''SWIR1'', ''SWIR2'', ''pixel_qa''])
             (bands out)"
proof -
  from assms obtain qa bs where qa: "map_of (raw_bands img) ''pixel_qa'' = Some qa"
    and sel: "select_rename (divide (updateMask (raw_bands img) (clear_sky_mask qa)) 10000)
                [''B1'', ''B2'', ''B3'', ''B4'', ''B5'', ''B7'', ''pixel_qa'']
                [''blue'', ''green'', ''red'', ''NIR'', ''SWIR1'', ''SWIR2'', ''pixel_qa''] = Inr bs"
    and out: "bands out = bs"
    by (auto simp: cloud_mask_def ee_bind_Inr_iff select_band_Inr_iff)
  from select_rename_Inr [OF sel] qa out show ?thesis
    by blast
qed

lemma pixel_value_renamed:
  assumes "list_all2 (\<lambda>(old, new) (n, r). n = new \<and> map_of bs old = Some r) (zip olds news) out"
    and "distinct news" and "length olds = length news"
    and "(old, new) \<in> set (zip olds news)"
  shows "pixel_value out new p = pixel_value bs old p"
  using assms
proof (induction olds news arbitrary: out rule: list_induct2')
  case (4 x xs y ys)
  then obtain r out' where out: "out = (y, r) # out'" and r: "map_of bs x = Some r"
    and rest: "list_all2 (\<lambda>(old, new) (n, r). n = new \<and> map_of bs old = Some r) (zip xs ys) out'"
    by (auto simp: list_all2_Cons1)
  show ?case
  proof (cases "new = y")
    case True
    with 4 have "old = x" by (auto dest: set_zip_rightD)
    with True out r show ?thesis by (simp add: pixel_value_def)
  next
    case False
    with 4 have "(old, new) \<in> set (zip xs ys)" by auto
    with 4 rest have "pixel_value out' new p = pixel_value bs old p" by auto
    with False out show ?thesis by (simp add: pixel_value_def)
  qed
qed simp_all

lemma cloud_mask_pixel:
  assumes "cloud_mask img = Inr out"
    and "(old, new) \<in> set (zip [''B1'', ''B2'', ''B3'', ''B4'', ''B5'', ''B7'', ''pixel_qa'']
                               [''blue'', ''green'', ''red'', ''NIR'', ''SWIR1'', ''SWIR2'', ''pixel_qa''])"
  shows "pixel_value (bands out) new p = preprocessed_value img old p"
proof -
  from cloud_mask_bands [OF assms(1)] obtain qa where
    qa: "map_of (raw_bands img) ''pixel_qa'' = Some qa"
    and all: "list_all2 (\<lambda>(old, new) (n, r). n = new \<and>
                map_of (divide (updateMask (raw_bands img) (clear_sky_mask qa)) 10000) old = Some r)
             (zip [''B1'', ''B2'', ''B3'', ''B4'', ''B5'', ''B7'', ''pixel_qa'']
                  [''blue'', ''green'', ''red'', ''NIR'', ''SWIR1'', ''SWIR2'', ''pixel_qa''])
             (bands out)"
    by blast
  have "pixel_value (bands out) new p =
          pixel_value (divide (updateMask (raw_bands img) (clear_sky_mask qa)) 10000) old p"
    by (rule pixel_value_renamed [OF all _ _ assms(2)]) simp_all
  then show ?thesis
    using qa by (simp add: pixel_value_rescaled preprocessed_value_def split: option.splits)
qed


lemma square_1:
  "square (Suc 0) (x, y) =
     [(x - 1, y - 1), (x - 1, y), (x - 1, y + 1), (x, y - 1), (x, y), (x, y + 1),
      (x + 1, y - 1), (x + 1, y), (x + 1, y + 1)]"
  by (simp add: square_def upto_rec1)

lemmas raster_defs =
  clear_sky_mask_def reduceNeighborhood_def And_raster_def eq_const_def bitwiseAnd_def
  anyNonZero_def unmasked_def square_1 constant_image_def

lemma cloud_mask_example_scene:
  "cloud_mask (example_scene qa) =
     Inr \<lparr>bands = [(''blue'', \<lambda>p. case clear_sky_mask qa p of None \<Rightarrow> None | Some m \<Rightarrow> if m = 0 then None else Some (3 / 100)),
                   (''green'', \<lambda>p. case clear_sky_mask qa p of None \<Rightarrow> None | Some m \<Rightarrow> if m = 0 then None else Some (6 / 100)),
                   (''red'', \<lambda>p. case clear_sky_mask qa p of None \<Rightarrow> None | Some m \<Rightarrow> if m = 0 then None else Some (1 / 5)),
                   (''NIR'', \<lambda>p. case clear_sky_mask qa p of None \<Rightarrow> None | Some m \<Rightarrow> if m = 0 then None else Some (1 / 2)),
                   (''SWIR1'', \<lambda>p. case clear_sky_mask qa p of None \<Rightarrow> None | Some m \<Rightarrow> if m = 0 then None else Some (1 / 4)),
                   (''SWIR2'', \<lambda>p. case clear_sky_mask qa p of None \<Rightarrow> None | Some m \<Rightarrow> if m = 0 then None else Some (12 / 100)),
                   (''pixel_qa'', \<lambda>p. case clear_sky_mask qa p of None \<Rightarrow> None | Some m \<Rightarrow> if m = 0 then None else map_option (\<lambda>k. real_of_int k / 10000) (qa p))],
          props = [''date'' \<mapsto> ''2009-06-17T16:02:11.1234560Z'', ''year'' \<mapsto> ''2009'']\<rparr>"
  by (simp add: cloud_mask_def example_scene_def select_band_def select_rename_def divide_def
      updateMask_def constant_image_def fun_eq_iff split: option.splits)

lemma ndvi_Inr:
  assumes "map_of (bands img) ''NIR'' = Some nir" and "map_of (bands img) ''red'' = Some red"
  shows "ndvi img =
           Inr \<lparr>bands = [(''nd'', \<lambda>p. case (nir p, red p) of
                                      (Some x, Some y) \<Rightarrow>
                                        if x < 0 \<or> y < 0 \<or> x + y = 0 then None
                                        else Some ((x - y) / (x + y))
                                    | _ \<Rightarrow> None)],
                 props = (Map.empty(''variable'' \<mapsto> ''NDVI''))(''year'' := props img ''year'')\<rparr>"
  using assms by (simp add: ndvi_def normalizedDifference_def select_band_def)

lemma ndvi_pixel:
  assumes "map_of (bands img) ''NIR'' = Some nir" and "map_of (bands img) ''red'' = Some red"
    and "ndvi img = Inr out"
  shows "pixel_value (bands out) ''nd'' p =
           (case (nir p, red p) of
              (Some x, Some y) \<Rightarrow>
                if x < 0 \<or> y < 0 \<or> x + y = 0 then None else Some ((x - y) / (x + y))
            | _ \<Rightarrow> None)"
  using assms(3) unfolding ndvi_Inr [OF assms(1,2)] by (auto simp: pixel_value_def)

lemma sample_image_NIR: "map_of (bands (sample_image yr a b)) ''NIR'' = Some (\<lambda>p. Some a)"
  by (simp add: sample_image_def)

lemma sample_image_red: "map_of (bands (sample_image yr a b)) ''red'' = Some (\<lambda>p. Some b)"
  by (simp add: sample_image_def)

lemma pixel_value_Nil [simp]: "pixel_value [] b p = None"
  by (simp add: pixel_value_def)

lemma pixel_value_map_names:
  "b \<in> set names \<Longrightarrow> pixel_value (map (\<lambda>b. (b, f b)) names) b p = f b p"
  by (induction names) (auto simp: pixel_value_def)

lemma reduce_images_Inr:
  assumes "list_all (\<lambda>j. map fst (bands j) = names) coll"
  shows "reduce_images r coll =
           Inr (if coll = [] then []
                else map (\<lambda>b. (b, \<lambda>p. r (unmasked (map (\<lambda>j. pixel_value (bands j) b p) coll)))) names)"
proof (cases coll)
  case Nil
  then show ?thesis by (simp add: reduce_images_def)
next
  case (Cons i rest)
  with assms have "map fst (bands i) = names" "list_all (\<lambda>j. map fst (bands j) = names) rest"
    by simp_all
  with Cons show ?thesis by (simp add: reduce_images_def)
qed

lemma reduce_images_pixel:
  assumes "list_all (\<lambda>j. map fst (bands j) = names) coll" and "b \<in> set names"
    and "r [] = None"
  shows "\<exists>bs. reduce_images r coll = Inr bs \<and>
           pixel_value bs b p = r (unmasked (map (\<lambda>j. pixel_value (bands j) b p) coll))"
proof (cases "coll = []")
  case True
  then show ?thesis using assms(3) by (simp add: reduce_images_def unmasked_def)
next
  case False
  then show ?thesis
    by (simp add: reduce_images_Inr [OF assms(1)] pixel_value_map_names [OF assms(2)])
qed

lemma median_Nil [simp]: "median [] = None"
  by (simp add: median_def)

lemma sort_Nil_iff: "sort vs = [] \<longleftrightarrow> vs = []"
  by (metis length_0_conv length_sort)

lemma median_eq:
  "median vs =
     (if length vs = 0 then None
      else if odd (length vs) then Some (sort vs ! (length vs div 2))
      else Some ((sort vs ! (length vs div 2 - 1) + sort vs ! (length vs div 2)) / 2))"
  by (simp add: median_def Let_def sort_Nil_iff)

lemma maximum_Nil [simp]: "maximum [] = None"
  by (simp add: maximum_def)

lemma maximum_eq: "maximum vs = (if vs = [] then None else Some (Max (set vs)))"
  by (cases vs) (simp_all add: maximum_def Max.set_eq_fold [symmetric])

lemma filterMetadata_equals_year:
  "filterMetadata_equals collection ''year'' year = filter (\<lambda>i. props i ''year'' = Some year) collection"
  by (simp add: filterMetadata_equals_def)

lemma sample_collection_2009:
  "filter (\<lambda>i. props i ''year'' = Some ''2009'') sample_collection =
     [sample_image ''2009'' (13 / 20) (7 / 20), sample_image ''2009'' (17 / 20) (3 / 20),
      clip (sample_image ''2009'' (19 / 20) (1 / 20)) []]"
  by (simp add: sample_collection_def sample_image_def clip_def)

lemma sample_collection_bands:
  "list_all (\<lambda>i. map fst (bands i) = reflectance_bands)
     (filter (\<lambda>i. props i ''year'' = Some ''2009'') sample_collection)"
  unfolding sample_collection_2009
  by (simp add: sample_image_def clip_def reflectance_bands_def)

lemma sample_contributions_NIR:
  "contributions sample_collection ''2009'' ''NIR'' (0, 0) = [13 / 20, 17 / 20]"
  unfolding contributions_def sample_collection_2009
  by (simp add: sample_image_def clip_def unmasked_def pixel_value_def)

lemma sample_collection_2010:
  "filter (\<lambda>i. props i ''year'' = Some ''2010'') sample_collection =
     [sample_image ''2010'' (9 / 10) (1 / 10)]"
  by (simp add: sample_collection_def sample_image_def clip_def)

lemma sample_collection_bands_2010:
  "list_all (\<lambda>i. map fst (bands i) = reflectance_bands)
     (filter (\<lambda>i. props i ''year'' = Some ''2010'') sample_collection)"
  unfolding sample_collection_2010
  by (simp add: sample_image_def reflectance_bands_def)

lemma sample_contributions_NIR_2010:
  "contributions sample_collection ''2010'' ''NIR'' (0, 0) = [9 / 10]"
  unfolding contributions_def sample_collection_2010
  by (simp add: sample_image_def unmasked_def pixel_value_def)

lemma has_NIR_red:
  assumes "map_of (bands i) ''NIR'' \<noteq> None \<and> map_of (bands i) ''red'' \<noteq> None"
  shows "\<exists>out. ndvi i = Inr out \<and> map fst (bands out) = [''nd''] \<and>
           pixel_value (bands out) ''nd'' p = scene_index i p"
proof -
  from assms obtain nir red where "map_of (bands i) ''NIR'' = Some nir" "map_of (bands i) ''red'' = Some red"
    by auto
  from ndvi_Inr [OF this] show ?thesis
    by (simp add: scene_index_def)
qed

lemma ee_map_all:
  assumes "\<And>x. x \<in> set xs \<Longrightarrow> \<exists>y. f x = Inr y \<and> P x y"
  shows "\<exists>ys. ee_map f xs = Inr ys \<and> list_all2 P xs ys"
  using assms
proof (induction xs)
  case Nil
  show ?case by simp
next
  case (Cons x xs)
  have "\<exists>y. f x = Inr y \<and> P x y"
    by (rule Cons.prems) simp
  then obtain y where y: "f x = Inr y" "P x y"
    by (elim exE conjE)
  have "\<exists>ys. ee_map f xs = Inr ys \<and> list_all2 P xs ys"
    by (rule Cons.IH, rule Cons.prems) simp
  then obtain ys where ys: "ee_map f xs = Inr ys" "list_all2 P xs ys"
    by (elim exE conjE)
  have "ee_map f (x # xs) = Inr (y # ys)"
    by (simp add: y(1) ys(1))
  moreover have "list_all2 P (x # xs) (y # ys)"
    by (simp add: y(2) ys(2))
  ultimately show ?case by (intro exI conjI)
qed

lemma list_all2_right:
  "list_all2 (\<lambda>x y. Q y \<and> f y = g x) xs ys \<Longrightarrow> list_all Q ys \<and> map f ys = map g xs"
  by (induction rule: list_all2_induct) simp_all

lemma ee_map_ndvi:
  assumes "list_all (\<lambda>i. map_of (bands i) ''NIR'' \<noteq> None \<and> map_of (bands i) ''red'' \<noteq> None) sel"
  shows "\<exists>indices. ee_map ndvi sel = Inr indices \<and>
           list_all (\<lambda>j. map fst (bands j) = [''nd'']) indices \<and>
           map (\<lambda>j. pixel_value (bands j) ''nd'' p) indices = map (\<lambda>i. scene_index i p) sel"
proof -
  have step: "\<exists>out. ndvi i = Inr out \<and>
          (map fst (bands out) = [''nd''] \<and> pixel_value (bands out) ''nd'' p = scene_index i p)"
    if "i \<in> set sel" for i
  proof (rule has_NIR_red)
    from assms that show "map_of (bands i) ''NIR'' \<noteq> None \<and> map_of (bands i) ''red'' \<noteq> None"
      by (simp add: list_all_iff)
  qed
  have "\<exists>indices. ee_map ndvi sel = Inr indices \<and>
          list_all2 (\<lambda>i out. map fst (bands out) = [''nd''] \<and>
                 pixel_value (bands out) ''nd'' p = scene_index i p) sel indices"
    by (rule ee_map_all) (rule step)
  then obtain indices where
    ind: "ee_map ndvi sel = Inr indices"
    and all: "list_all2 (\<lambda>i out. map fst (bands out) = [''nd''] \<and>
                 pixel_value (bands out) ''nd'' p = scene_index i p) sel indices"
    by (elim exE conjE)
  from list_all2_right [OF all] ind show ?thesis
    by (intro exI [of _ indices] conjI) simp_all
qed

lemma sample_has_NIR_red:
  "list_all (\<lambda>i. map_of (bands i) ''NIR'' \<noteq> None \<and> map_of (bands i) ''red'' \<noteq> None)
     (filter (\<lambda>i. props i ''year'' = Some ''2009'') sample_collection)"
  unfolding sample_collection_2009
  by (simp add: sample_image_def clip_def)

lemma sample_indices:
  "map (\<lambda>i. scene_index i p) (filter (\<lambda>i. props i ''year'' = Some ''2009'') sample_collection) =
     [Some (3 / 10), Some (7 / 10), None]"
  unfolding sample_collection_2009
  by (simp add: scene_index_def ndvi_def normalizedDifference_def select_band_def sample_image_def
      clip_def pixel_value_def)

lemma filters_survive:
  "filterBounds
     (filterMetadata_less_than
        (filter_dayOfYear (filterDate archive date_1995_01_01 date_2015_12_31) 121 273) 80)
     detroit_msa = filter (survives detroit_msa) archive"
proof -
  have "(\<not> before (time_start s) date_1995_01_01 \<and> before (time_start s) date_2015_12_31 \<and>
         121 \<le> t_doy (time_start s) \<and> t_doy (time_start s) \<le> 273 \<and>
         CLOUD_COVER_LAND s < 80 \<and> list_ex (\<lambda>p. p \<in> set detroit_msa) (footprint s))
        = survives detroit_msa s" for s
    unfolding survives_def on_or_after_def on_or_before_def before_def
      date_1995_01_01_def date_2015_12_31_def
    by (cases "time_start s") auto
  then show ?thesis
    by (simp add: filterBounds_def filterMetadata_less_than_def filter_dayOfYear_def
        filterDate_def conj_ac cong: filter_cong)
qed

lemma ee_map_compose:
  "(ee_bind (ee_map f xs) (ee_map g) = Inr zs) =
     (\<exists>ys. list_all2 (\<lambda>x y. f x = Inr y) xs ys \<and> list_all2 (\<lambda>y z. g y = Inr z) ys zs)"
  by (simp add: ee_bind_Inr_iff ee_map_Inr_iff)

lemma list_all2_compose:
  "(\<exists>ys. list_all2 (\<lambda>x y. f x = Inr y) xs ys \<and> list_all2 (\<lambda>y z. g y = Inr z) ys zs) =
     list_all2 (\<lambda>x z. ee_bind (f x) g = Inr z) xs zs"
proof -
  have eq: "(\<lambda>x z. ee_bind (f x) g = Inr z) = (\<lambda>x y. f x = Inr y) OO (\<lambda>y z. g y = Inr z)"
    by (auto simp: fun_eq_iff ee_bind_Inr_iff)
  show ?thesis
    unfolding eq list.rel_compp by (simp add: relcompp_apply)
qed

lemma lt5_collection_Inr_iff:
  "(lt5_collection archive detroit_msa = Inr coll) =
     list_all2 (\<lambda>s i. preprocess s = Inr i) (filter (survives detroit_msa) archive) coll"
  unfolding lt5_collection_def filters_survive ee_map_compose list_all2_compose preprocess_def ..

lemma le7_collection_Inr_iff:
  "(le7_collection archive detroit_msa = Inr coll) =
     list_all2 (\<lambda>s i. preprocess s = Inr i) (filter (survives detroit_msa) archive) coll"
  unfolding le7_collection_def filters_survive ee_map_compose list_all2_compose preprocess_def ..

lemma lt5_le7_collection_Inr_iff:
  "(lt5_le7_collection lt5_archive le7_archive detroit_msa = Inr coll) =
     list_all2 (\<lambda>s i. preprocess s = Inr i)
       (filter (survives detroit_msa) lt5_archive @ filter (survives detroit_msa) le7_archive) coll"
proof -
  have "(lt5_le7_collection lt5_archive le7_archive detroit_msa = Inr coll) =
          (\<exists>a b. lt5_collection lt5_archive detroit_msa = Inr a \<and>
                 le7_collection le7_archive detroit_msa = Inr b \<and> coll = a @ b)"
    by (auto simp: lt5_le7_collection_def ee_bind_Inr_iff)
  also have "\<dots> = (\<exists>a b. list_all2 (\<lambda>s i. preprocess s = Inr i) (filter (survives detroit_msa) lt5_archive) a \<and>
                 list_all2 (\<lambda>s i. preprocess s = Inr i) (filter (survives detroit_msa) le7_archive) b \<and>
                 coll = a @ b)"
    unfolding lt5_collection_Inr_iff le7_collection_Inr_iff ..
  also have "\<dots> = list_all2 (\<lambda>s i. preprocess s = Inr i)
       (filter (survives detroit_msa) lt5_archive @ filter (survives detroit_msa) le7_archive) coll"
    (is "?L = ?R")
  proof
    assume ?L
    then show ?R by (auto intro: list_all2_appendI)
  next
    assume ?R
    then show ?L unfolding list_all2_append1 by blast
  qed
  finally show ?thesis .
qed

lemma renamed_names:
  "list_all2 (\<lambda>(old, new) (n, r). n = new \<and> Q old r) ps out \<Longrightarrow> map fst out = map snd ps"
  by (induction rule: list_all2_induct) auto

lemma cloud_mask_band_names:
  assumes "cloud_mask img = Inr out"
  shows "map fst (bands out) = reflectance_bands @ [''pixel_qa'']"
proof -
  from cloud_mask_bands [OF assms] obtain qa where
    "list_all2 (\<lambda>(old, new) (n, r). n = new \<and>
                map_of (divide (updateMask (raw_bands img) (clear_sky_mask qa)) 10000) old = Some r)
             (zip [''B1'', ''B2'', ''B3'', ''B4'', ''B5'', ''B7'', ''pixel_qa'']
                  [''blue'', ''green'', ''red'', ''NIR'', ''SWIR1'', ''SWIR2'', ''pixel_qa''])
             (bands out)"
    by (elim exE conjE)
  from renamed_names [OF this] show ?thesis
    by (simp add: reflectance_bands_def)
qed

lemma select_reflectance_of_names:
  assumes "map fst (bands out) = reflectance_bands @ [''pixel_qa'']"
  shows "select_reflectance out = Inr (out\<lparr>bands := butlast (bands out)\<rparr>)"
proof -
  from assms obtain b1 b2 b3 b4 b5 b7 q where
    "bands out = [(''blue'', b1), (''green'', b2), (''red'', b3), (''NIR'', b4),
                  (''SWIR1'', b5), (''SWIR2'', b7), (''pixel_qa'', q)]"
    by (auto simp: reflectance_bands_def map_eq_Cons_conv)
  then show ?thesis
    by (simp add: select_reflectance_def select_rename_def select_band_def reflectance_bands_def)
qed

lemma preprocess_Inr:
  assumes "preprocess s = Inr i"
  shows "\<exists>out. cloud_mask s = Inr out \<and> i = out\<lparr>bands := butlast (bands out)\<rparr> \<and>
           map fst (bands i) = reflectance_bands"
proof -
  from assms obtain out where out: "cloud_mask s = Inr out" and sel: "select_reflectance out = Inr i"
    by (auto simp: preprocess_def ee_bind_Inr_iff)
  note names = cloud_mask_band_names [OF out]
  from sel have i: "i = out\<lparr>bands := butlast (bands out)\<rparr>"
    by (simp add: select_reflectance_of_names [OF names])
  have "map fst (bands i) = butlast (map fst (bands out))"
    by (simp add: i map_butlast)
  with names have "map fst (bands i) = reflectance_bands"
    by simp
  with out i show ?thesis by blast
qed

lemma list_all2_image:
  "list_all2 (\<lambda>x y. f x = Inr y) xs ys \<Longrightarrow> (\<And>x y. f x = Inr y \<Longrightarrow> Q y) \<Longrightarrow> list_all Q ys"
  by (induction rule: list_all2_induct) auto

lemma assembled_bands:
  assumes "lt5_le7_collection lt5 le7 detroit_msa = Inr coll"
  shows "list_all (\<lambda>i. map fst (bands i) = reflectance_bands) coll"
proof -
  from assms have "list_all2 (\<lambda>s i. preprocess s = Inr i)
       (filter (survives detroit_msa) lt5 @ filter (survives detroit_msa) le7) coll"
    by (simp only: lt5_le7_collection_Inr_iff)
  then show ?thesis
  proof (rule list_all2_image)
    fix s i assume "preprocess s = Inr i"
    from preprocess_Inr [OF this] show "map fst (bands i) = reflectance_bands"
      by blast
  qed
qed

lemma median_composite_bands:
  assumes "list_all (\<lambda>i. map fst (bands i) = names) coll"
  shows "\<exists>comp. annual_composite_median coll year = Inr comp \<and>
           map fst (bands comp) =
             (if filterMetadata_equals coll ''year'' year = [] then [] else names)"
proof -
  from assms have "list_all (\<lambda>i. map fst (bands i) = names) (filterMetadata_equals coll ''year'' year)"
    by (simp add: filterMetadata_equals_def list_all_iff)
  from reduce_images_Inr [OF this, of median] show ?thesis
    by (simp add: annual_composite_median_def comp_def)
qed

lemma assembled_has_NIR_red:
  assumes "lt5_le7_collection lt5 le7 detroit_msa = Inr coll"
  shows "list_all (\<lambda>i. map_of (bands i) ''NIR'' \<noteq> None \<and> map_of (bands i) ''red'' \<noteq> None) coll"
proof -
  have "map_of bs ''NIR'' \<noteq> None \<and> map_of bs ''red'' \<noteq> None"
    if "map fst bs = reflectance_bands" for bs :: "(string \<times> real raster) list"
  proof -
    from that have "''NIR'' \<in> fst ` set bs" "''red'' \<in> fst ` set bs"
      by (simp_all add: reflectance_bands_def flip: set_map)
    then show ?thesis
      by (simp add: map_of_eq_None_iff)
  qed
  with assembled_bands [OF assms] show ?thesis
    by (simp add: list_all_iff)
qed

lemma clear_sky_mask_constant:
  "c AND 8 = 0 \<Longrightarrow> c AND 32 = 0 \<Longrightarrow> c AND 4 = 0 \<Longrightarrow> clear_sky_mask (\<lambda>q. Some c) p = Some 1"
  by (cases p) (simp add: raster_defs)

lemma preprocess_example_scene:
  "\<exists>i. preprocess (example_scene qa) = Inr i"
  by (simp add: preprocess_def cloud_mask_example_scene select_reflectance_def select_rename_def
      select_band_def reflectance_bands_def)

lemma survives_clear: "survives [(0, 0)] clear_scene"
  by (simp add: survives_def on_or_after_def on_or_before_def clear_scene_def example_scene_def)

lemma survives_clear_scene:
  "filter (survives [(0, 0)])
     [clear_scene, clear_scene\<lparr>CLOUD_COVER_LAND := 90\<rparr>,
      clear_scene\<lparr>time_start := \<lparr>t_year = 2015, t_doy = 365, t_millis = 0\<rparr>\<rparr>,
      clear_scene\<lparr>footprint := [(5, 5)]\<rparr>] = [clear_scene]"
  by (simp add: survives_def on_or_after_def on_or_before_def clear_scene_def example_scene_def)

lemma years_upto: "[1995..2015] = [1995, 1996, 1997, 1998, 1999, 2000, 2001, 2002, 2003, 2004, 2005,
     2006, 2007, 2008, 2009, 2010, 2011, 2012, 2013, 2014, 2015]"
  by (simp add: upto_rec1)

lemma format_d_years:
  "map format_d [1995..2015] = combined_dates"
  unfolding years_upto by (simp add: format_d_def combined_dates_def digit_def)

lemma year_nth: "n < 21 \<Longrightarrow> [1995..2015] ! n = 1995 + int n"
  by (rule nth_upto) simp

lemma year_length: "length [1995..2015] = 21"
  by (simp only: length_upto)

lemma combined_dates_nth: "n < 21 \<Longrightarrow> combined_dates ! n = format_d (1995 + int n)"
proof -
  assume n: "n < 21"
  have "combined_dates ! n = map format_d [1995..2015] ! n"
    by (simp only: format_d_years)
  also have "\<dots> = format_d ([1995..2015] ! n)"
    using n by (intro nth_map) (simp only: year_length)
  finally show ?thesis
    using n by (simp only: year_nth)
qed

lemma descriptions_distinct:
  "distinct (map (\<lambda>y. ''LT5-LE7_SR_Maximum_NDVI_'' @ format_d y) [1995..2015])"
proof -
  have "distinct combined_dates"
    by (simp add: combined_dates_def)
  then have "distinct (map format_d [1995..2015])"
    by (simp only: format_d_years)
  then show ?thesis
    by (simp add: distinct_map inj_on_def)
qed

lemma maximum_composite:
  assumes "list_all (\<lambda>i. map_of (bands i) ''NIR'' \<noteq> None \<and> map_of (bands i) ''red'' \<noteq> None) collection"
  shows "\<exists>comp. annual_composite_maximum_ndvi collection year = Inr comp \<and>
           pixel_value (bands comp) ''nd'' p = maximum (index_contributions collection year p)"
proof -
  let ?sel = "filter (\<lambda>i. props i ''year'' = Some year) collection"
  from assms have "list_all (\<lambda>i. map_of (bands i) ''NIR'' \<noteq> None \<and> map_of (bands i) ''red'' \<noteq> None) ?sel"
    by (simp add: list_all_iff)
  from ee_map_ndvi [OF this, of p] obtain indices where
    ind: "ee_map ndvi ?sel = Inr indices"
    and names: "list_all (\<lambda>j. map fst (bands j) = [''nd'']) indices"
    and vals: "map (\<lambda>j. pixel_value (bands j) ''nd'' p) indices = map (\<lambda>i. scene_index i p) ?sel"
    by blast
  have "''nd'' \<in> set [''nd'']" by simp
  from reduce_images_pixel [where r = maximum and p = p, OF names this maximum_Nil] obtain bs where
    bs: "reduce_images maximum indices = Inr bs"
    and v: "pixel_value bs ''nd'' p = maximum (index_contributions collection year p)"
    unfolding index_contributions_def vals by blast
  have "annual_composite_maximum_ndvi collection year = Inr \<lparr>bands = bs, props = [''year'' \<mapsto> year]\<rparr>"
    by (simp add: annual_composite_maximum_ndvi_def filterMetadata_equals_year ind bs)
  with v show ?thesis by simp
qed

lemma pixel_value_updateMask:
  "pixel_value (updateMask bs m) b p =
     (case m p of None \<Rightarrow> None | Some v \<Rightarrow> if v = 0 then None else pixel_value bs b p)"
  by (simp add: pixel_value_def map_of_updateMask split: option.splits)

lemma pixel_value_clip:
  "pixel_value (bands (clip img r)) b p = (if p \<in> set r then pixel_value (bands img) b p else None)"
proof -
  have "map_of (map (\<lambda>(b, r'). (b, \<lambda>p. if p \<in> set r then r' p else None)) bs) b =
          map_option (\<lambda>r' p. if p \<in> set r then r' p else None) (map_of bs b)" for bs :: "(string \<times> real raster) list"
    by (induction bs) auto
  then show ?thesis
    by (simp add: clip_def pixel_value_def split: option.splits)
qed

lemma water_indicates:
  "max_extent p = Some t \<Longrightarrow> t \<noteq> 0 \<Longrightarrow> water max_extent p = Some 0"
  by (simp add: water_def where_raster_def constant_image_def)

lemma water_elsewhere:
  "max_extent p = None \<or> max_extent p = Some 0 \<Longrightarrow> water max_extent p = Some 1"
  by (auto simp: water_def where_raster_def constant_image_def)

lemma masked_export_pixel:
  "pixel_value (bands (updateMask_image (updateMask_image img (water max_extent)) cdl)) b p =
     (case cdl p of
        None \<Rightarrow> None
      | Some c \<Rightarrow> if c = 0 then None
                  else (case water max_extent p of
                          None \<Rightarrow> None
                        | Some w \<Rightarrow> if w = 0 then None else pixel_value (bands img) b p))"
  by (simp add: updateMask_image_def pixel_value_updateMask split: option.splits)

lemma years_from_indices: "map (\<lambda>i. 1995 + int i) [0..<21] = [1995..2015]"
proof (rule nth_equalityI)
  show "length (map (\<lambda>i. 1995 + int i) [0..<21]) = length [1995..2015]"
    by (simp only: year_length length_map length_upt)
next
  fix i assume "i < length (map (\<lambda>i. 1995 + int i) [0..<21])"
  then have i: "i < 21" by simp
  then show "map (\<lambda>i. 1995 + int i) [0..<21] ! i = [1995..2015] ! i"
    by (simp only: year_nth) simp
qed

lemma combined_dates_length: "length combined_dates = 21"
  by (simp add: combined_dates_def)

lemma sample_all_NIR_red:
  "list_all (\<lambda>i. map_of (bands i) ''NIR'' \<noteq> None \<and> map_of (bands i) ''red'' \<noteq> None) sample_collection"
  by (simp add: sample_collection_def sample_image_def clip_def)

lemma format_d_2009: "format_d (1995 + int 14) = ''2009''"
  by (simp add: format_d_def digit_def)

text \<open>
  What \<^verbatim>\<open>cloud_mask\<close> computes as its mask: at an unmasked pixel it is 1 as soon as some
  pixel of the 3 by 3 window has none of the three flag bits set, and 0 only if every
  unmasked pixel of the window is flagged.
\<close>

lemma list_ex_unmasked_map:
  "list_ex P (unmasked (map f xs)) \<longleftrightarrow> (\<exists>q \<in> set xs. \<exists>v. f q = Some v \<and> P v)"
  by (induction xs) (auto simp: unmasked_def List.map_filter_simps split: option.splits)

lemma clear_indicator:
  "And_raster
     (And_raster (eq_const (bitwiseAnd qa 8) 0) (eq_const (bitwiseAnd qa 32) 0))
     (eq_const (bitwiseAnd qa 4) 0) q =
   map_option (\<lambda>k. if k AND 8 = 0 \<and> k AND 32 = 0 \<and> k AND 4 = 0 then 1 else 0) (qa q)"
  by (cases "qa q") (simp_all add: And_raster_def eq_const_def bitwiseAnd_def)

lemma clear_indicator_fun:
  "And_raster
     (And_raster (eq_const (bitwiseAnd qa 8) 0) (eq_const (bitwiseAnd qa 32) 0))
     (eq_const (bitwiseAnd qa 4) 0) =
   (\<lambda>q. map_option (\<lambda>k. if k AND 8 = 0 \<and> k AND 32 = 0 \<and> k AND 4 = 0 then 1 else 0) (qa q))"
  by (rule ext) (rule clear_indicator)

lemma clear_sky_mask_value:
  "clear_sky_mask qa p =
     (case qa p of
        None \<Rightarrow> None
      | Some _ \<Rightarrow>
          Some (if \<exists>q \<in> set (square 1 p). \<exists>k. qa q = Some k \<and>
                     k AND 8 = 0 \<and> k AND 32 = 0 \<and> k AND 4 = 0
                then 1 else 0))"
proof (cases "qa p")
  case None
  then show ?thesis
    by (simp add: clear_sky_mask_def reduceNeighborhood_def clear_indicator_fun)
next
  case (Some k0)
  let ?g = "\<lambda>k::int. if k AND 8 = 0 \<and> k AND 32 = 0 \<and> k AND 4 = 0 then 1 else (0::int)"
  have "list_ex (\<lambda>v. v \<noteq> 0) (unmasked (map (\<lambda>q. map_option ?g (qa q)) (square (Suc 0) p))) \<longleftrightarrow>
        (\<exists>q \<in> set (square (Suc 0) p). \<exists>k. qa q = Some k \<and> k AND 8 = 0 \<and> k AND 32 = 0 \<and> k AND 4 = 0)"
    unfolding list_ex_unmasked_map
    by (rule bex_cong [OF refl]) (auto split: if_splits)
  with Some show ?thesis
    by (simp add: clear_sky_mask_def reduceNeighborhood_def clear_indicator_fun anyNonZero_def)
qed

section \<open>The claims\<close>

text \<open>
  C1 (the clear-sky mask dilates the contaminated region by one pixel): the code does
  the opposite. \<^verbatim>\<open>anyNonZero\<close> is applied to the raster that is 1 where the pixel is
  clear, so a pixel stays in the mask as soon as one pixel of its window is clear. In
  the sample scene the cloud bit is set at \<open>(0, 0)\<close> alone; that pixel and its
  neighbour \<open>(1, 1)\<close> both keep their rescaled NIR value in the output of
  \<^verbatim>\<open>cloud_mask\<close>, although the comment in the code says that pixels adjacent to cloud
  are masked too.
\<close>

theorem cloud_mask_keeps_isolated_cloud:
  "\<exists>out. cloud_mask (example_scene isolated_cloud) = Inr out \<and>
         pixel_value (raw_bands (example_scene isolated_cloud)) ''pixel_qa'' (0, 0) = Some 32 \<and>
         (32 :: int) AND 2 ^ 5 \<noteq> 0 \<and>
         pixel_value (bands out) ''NIR'' (0, 0) = Some (1 / 2) \<and>
         pixel_value (bands out) ''NIR'' (1, 1) = Some (1 / 2)"
proof -
  have m: "clear_sky_mask isolated_cloud (0, 0) = Some 1" "clear_sky_mask isolated_cloud (1, 1) = Some 1"
    by (simp_all add: raster_defs isolated_cloud_def)
  show ?thesis
    by (simp add: cloud_mask_example_scene pixel_value_def m)
      (simp add: example_scene_def isolated_cloud_def)
qed

text \<open>
  C5: at every pixel of a reflectance band that is unmasked in the output of
  \<^verbatim>\<open>cloud_mask\<close>, the value is the raw value of the band it was renamed from, divided by
  10000. In the sample scene with a clear quality band, raw NIR 5000 and red 2000 become
  1/2 and 1/5.
\<close>

theorem cloud_mask_rescales_exactly:
  assumes "cloud_mask img = Inr out"
    and "(old, new) \<in> set (zip [''B1'', ''B2'', ''B3'', ''B4'', ''B5'', ''B7'']
                               [''blue'', ''green'', ''red'', ''NIR'', ''SWIR1'', ''SWIR2''])"
    and "pixel_value (bands out) new p = Some v"
  shows "\<exists>k. pixel_value (raw_bands img) old p = Some k \<and> v = real_of_int k / 10000"
proof -
  from assms(2) have "(old, new) \<in> set (zip [''B1'', ''B2'', ''B3'', ''B4'', ''B5'', ''B7'', ''pixel_qa'']
                               [''blue'', ''green'', ''red'', ''NIR'', ''SWIR1'', ''SWIR2'', ''pixel_qa''])"
    by auto
  from cloud_mask_pixel [OF assms(1) this, of p] assms(3)
  have "preprocessed_value img old p = Some v"
    by simp
  then show ?thesis
    by (cases "pixel_value (raw_bands img) old p")
      (auto simp: preprocessed_value_def split: option.splits if_splits)
qed

theorem cloud_mask_rescales_exactly_witness:
  "\<exists>out. cloud_mask (example_scene (constant_image 0)) = Inr out \<and>
         pixel_value (bands out) ''NIR'' (0, 0) = Some (1 / 2) \<and>
         pixel_value (bands out) ''red'' (0, 0) = Some (1 / 5) \<and>
         (\<exists>k. pixel_value (raw_bands (example_scene (constant_image 0))) ''B4'' (0, 0) = Some k \<and>
              (1 / 2 :: real) = real_of_int k / 10000)"
proof -
  have m: "clear_sky_mask (constant_image 0) (0, 0) = Some 1"
    by (simp add: raster_defs)
  obtain out where out: "cloud_mask (example_scene (constant_image 0)) = Inr out"
    by (simp add: cloud_mask_example_scene)
  have nir: "pixel_value (bands out) ''NIR'' (0, 0) = Some (1 / 2)"
    and red: "pixel_value (bands out) ''red'' (0, 0) = Some (1 / 5)"
    using out by (auto simp: cloud_mask_example_scene pixel_value_def m)
  have "(''B4'', ''NIR'') \<in> set (zip [''B1'', ''B2'', ''B3'', ''B4'', ''B5'', ''B7'']
                               [''blue'', ''green'', ''red'', ''NIR'', ''SWIR1'', ''SWIR2''])"
    by simp
  from cloud_mask_rescales_exactly [OF out this nir] out nir red
  show ?thesis by blast
qed


text \<open>
  C2, as amended: for an image with NIR and red bands \<^verbatim>\<open>ndvi\<close> never fails; at a pixel
  where both are unmasked and non-negative with a non-zero sum it returns
  \<open>(NIR - red) / (NIR + red)\<close>; at a pixel where the sum is zero, where either value is
  negative or where either is masked, the index is masked.
\<close>

theorem ndvi_value:
  assumes "map_of (bands img) ''NIR'' = Some nir" and "map_of (bands img) ''red'' = Some red"
  shows "\<exists>out. ndvi img = Inr out \<and>
           (nir p = Some x \<and> red p = Some y \<and> 0 \<le> x \<and> 0 \<le> y \<and> x + y \<noteq> 0 \<longrightarrow>
              pixel_value (bands out) ''nd'' p = Some ((x - y) / (x + y))) \<and>
           (nir p = Some x \<and> red p = Some y \<and> x + y = 0 \<longrightarrow>
              pixel_value (bands out) ''nd'' p = None) \<and>
           (nir p = Some x \<and> red p = Some y \<and> (x < 0 \<or> y < 0) \<longrightarrow>
              pixel_value (bands out) ''nd'' p = None) \<and>
           (nir p = None \<or> red p = None \<longrightarrow> pixel_value (bands out) ''nd'' p = None)"
proof -
  obtain out where out: "ndvi img = Inr out"
    by (simp add: ndvi_Inr [OF assms])
  note nd = ndvi_pixel [OF assms out, of p]
  have 1: "nir p = Some x \<and> red p = Some y \<and> 0 \<le> x \<and> 0 \<le> y \<and> x + y \<noteq> 0 \<longrightarrow>
              pixel_value (bands out) ''nd'' p = Some ((x - y) / (x + y))"
    by (simp add: nd)
  have 2: "nir p = Some x \<and> red p = Some y \<and> x + y = 0 \<longrightarrow>
              pixel_value (bands out) ''nd'' p = None"
    by (simp add: nd)
  have 3: "nir p = Some x \<and> red p = Some y \<and> (x < 0 \<or> y < 0) \<longrightarrow>
              pixel_value (bands out) ''nd'' p = None"
    by (auto simp add: nd)
  have 4: "nir p = None \<or> red p = None \<longrightarrow> pixel_value (bands out) ''nd'' p = None"
    by (auto simp add: nd split: option.splits)
  show ?thesis
    by (rule exI [of _ out]) (intro conjI out 1 2 3 4)
qed

theorem ndvi_value_witness:
  "\<exists>out. ndvi (sample_image ''2009'' (1 / 2) (1 / 5)) = Inr out \<and>
         pixel_value (bands out) ''nd'' (0, 0) = Some (3 / 7)"
  using ndvi_value [OF sample_image_NIR [of "''2009''" "1 / 2" "1 / 5"] sample_image_red,
      where p = "(0, 0)" and x = "1 / 2" and y = "1 / 5"]
  by simp

text \<open>
  C2 as stated fails: with NIR 3/10 and red -1/10 the sum is non-zero, yet the index is
  masked instead of being the quotient.
\<close>

theorem ndvi_masks_negative_input:
  "\<exists>out. ndvi (sample_image ''2009'' (3 / 10) (- (1 / 10))) = Inr out \<and>
         (3 / 10 + - (1 / 10) :: real) \<noteq> 0 \<and>
         pixel_value (bands out) ''nd'' (0, 0) = None \<and>
         pixel_value (bands out) ''nd'' (0, 0) \<noteq> Some ((3 / 10 - - (1 / 10)) / (3 / 10 + - (1 / 10)))"
  by (simp add: ndvi_def normalizedDifference_def select_band_def sample_image_def pixel_value_def)

text \<open>
  C9, as amended: at a pixel where NIR and red are both non-negative and
  \<open>NIR + red > 0\<close> the index is defined and lies between -1 and 1; at a pixel where
  NIR or red is negative no index is produced, whatever the sum (so any value the index
  has at a pixel with \<open>NIR + red > 0\<close> lies between -1 and 1); at a pixel with
  \<open>NIR + red = 0\<close> the index is masked.
\<close>

theorem ndvi_in_range:
  assumes "map_of (bands img) ''NIR'' = Some nir" and "map_of (bands img) ''red'' = Some red"
  shows "\<exists>out. ndvi img = Inr out \<and>
           (nir p = Some x \<and> red p = Some y \<and> 0 \<le> x \<and> 0 \<le> y \<and> 0 < x + y \<longrightarrow>
              (\<exists>w. pixel_value (bands out) ''nd'' p = Some w \<and> - 1 \<le> w \<and> w \<le> 1)) \<and>
           (nir p = Some x \<and> red p = Some y \<and> (x < 0 \<or> y < 0) \<longrightarrow>
              pixel_value (bands out) ''nd'' p = None) \<and>
           (nir p = Some x \<and> red p = Some y \<and> 0 < x + y \<and> pixel_value (bands out) ''nd'' p = Some v \<longrightarrow>
              - 1 \<le> v \<and> v \<le> 1) \<and>
           (nir p = Some x \<and> red p = Some y \<and> x + y = 0 \<longrightarrow>
              pixel_value (bands out) ''nd'' p = None)"
proof -
  obtain out where out: "ndvi img = Inr out"
    by (simp add: ndvi_Inr [OF assms])
  note nd = ndvi_pixel [OF assms out, of p]
  have bound: "- 1 \<le> (a - b) / (a + b) \<and> (a - b) / (a + b) \<le> 1"
    if "0 \<le> a" "0 \<le> b" "0 < a + b" for a b :: real
    using that by (simp add: field_simps)
  have 1: "nir p = Some x \<and> red p = Some y \<and> 0 \<le> x \<and> 0 \<le> y \<and> 0 < x + y \<longrightarrow>
              (\<exists>w. pixel_value (bands out) ''nd'' p = Some w \<and> - 1 \<le> w \<and> w \<le> 1)"
  proof (intro impI, elim conjE)
    assume *: "nir p = Some x" "red p = Some y" "0 \<le> x" "0 \<le> y" "0 < x + y"
    then have "pixel_value (bands out) ''nd'' p = Some ((x - y) / (x + y))"
      by (simp add: nd)
    with bound [OF *(3,4,5)]
    show "\<exists>w. pixel_value (bands out) ''nd'' p = Some w \<and> - 1 \<le> w \<and> w \<le> 1"
      by simp
  qed
  have 2: "nir p = Some x \<and> red p = Some y \<and> (x < 0 \<or> y < 0) \<longrightarrow>
              pixel_value (bands out) ''nd'' p = None"
    by (auto simp add: nd)
  have 3: "nir p = Some x \<and> red p = Some y \<and> 0 < x + y \<and> pixel_value (bands out) ''nd'' p = Some v \<longrightarrow>
              - 1 \<le> v \<and> v \<le> 1"
  proof (intro impI, elim conjE)
    assume *: "nir p = Some x" "red p = Some y" "0 < x + y" "pixel_value (bands out) ''nd'' p = Some v"
    show "- 1 \<le> v \<and> v \<le> 1"
    proof (cases "x < 0 \<or> y < 0 \<or> x + y = 0")
      case True
      with * show ?thesis by (simp add: nd)
    next
      case False
      with * have v: "v = (x - y) / (x + y)" by (simp add: nd)
      from False have "0 \<le> x" "0 \<le> y" by simp_all
      from bound [OF this *(3)] v show ?thesis by simp
    qed
  qed
  have 4: "nir p = Some x \<and> red p = Some y \<and> x + y = 0 \<longrightarrow>
              pixel_value (bands out) ''nd'' p = None"
    by (simp add: nd)
  show ?thesis
    by (rule exI [of _ out]) (intro conjI out 1 2 3 4)
qed

theorem ndvi_in_range_witness:
  "\<exists>out. ndvi (sample_image ''2009'' (1 / 2) (1 / 5)) = Inr out \<and>
         (0 :: real) \<le> 1 / 2 \<and> (0 :: real) \<le> 1 / 5 \<and> (0 :: real) < 1 / 2 + 1 / 5 \<and>
         (\<exists>w. pixel_value (bands out) ''nd'' (0, 0) = Some w \<and> - 1 \<le> w \<and> w \<le> 1) \<and>
         pixel_value (bands out) ''nd'' (0, 0) = Some (3 / 7)"
proof -
  from ndvi_in_range [OF sample_image_NIR [of "''2009''" "1 / 2" "1 / 5"] sample_image_red,
      where p = "(0, 0)" and x = "1 / 2" and y = "1 / 5" and v = "3 / 7"]
  have "\<exists>out. ndvi (sample_image ''2009'' (1 / 2) (1 / 5)) = Inr out \<and>
          (\<exists>w. pixel_value (bands out) ''nd'' (0, 0) = Some w \<and> - 1 \<le> w \<and> w \<le> 1)"
    by simp
  then obtain out where out: "ndvi (sample_image ''2009'' (1 / 2) (1 / 5)) = Inr out"
    and d: "\<exists>w. pixel_value (bands out) ''nd'' (0, 0) = Some w \<and> - 1 \<le> w \<and> w \<le> 1"
    by blast
  have nd: "pixel_value (bands out) ''nd'' (0, 0) = Some (3 / 7)"
    using out
    by (auto simp: ndvi_def normalizedDifference_def select_band_def sample_image_def pixel_value_def)
  show ?thesis
    by (rule exI [of _ out]) (intro conjI out d nd, simp_all)
qed

text \<open>
  C9 as stated fails: with NIR 3/10 and red -1/10 the sum is positive, yet no index is
  produced at the pixel, so there is no index value between -1 and 1 there.
\<close>

theorem ndvi_no_index_for_negative_red:
  "\<exists>out. ndvi (sample_image ''2009'' (3 / 10) (- (1 / 10))) = Inr out \<and>
         (0 :: real) < 3 / 10 + - (1 / 10) \<and>
         \<not> (\<exists>v. pixel_value (bands out) ''nd'' (0, 0) = Some v \<and> - 1 \<le> v \<and> v \<le> 1)"
  by (simp add: ndvi_def normalizedDifference_def select_band_def sample_image_def pixel_value_def)

text \<open>
  C3: the median composite of a year is built from exactly the scenes whose year label
  equals the year and is tagged with it; at each band and pixel its value is the median
  of the unmasked contributions: masked where there is none, the middle-ranked value for
  an odd number of them, the mean of the two middle-ranked values for an even number.
  (The scenes of the year are taken to have the same band list, as the assembled
  collections do.)
\<close>

theorem annual_composite_median_value:
  assumes "list_all (\<lambda>i. map fst (bands i) = names) (filter (\<lambda>i. props i ''year'' = Some year) collection)"
    and "b \<in> set names"
  shows "\<exists>comp. annual_composite_median collection year = Inr comp \<and>
           props comp ''year'' = Some year \<and>
           pixel_value (bands comp) b p =
             (let vs = contributions collection year b p; n = length vs
              in if n = 0 then None
                 else if odd n then Some (sort vs ! (n div 2))
                 else Some ((sort vs ! (n div 2 - 1) + sort vs ! (n div 2)) / 2))"
proof -
  from reduce_images_pixel [where r = median and p = p, OF assms median_Nil] obtain bs where
    bs: "reduce_images median (filter (\<lambda>i. props i ''year'' = Some year) collection) = Inr bs"
    and v: "pixel_value bs b p = median (contributions collection year b p)"
    unfolding contributions_def by blast
  have "annual_composite_median collection year = Inr \<lparr>bands = bs, props = [''year'' \<mapsto> year]\<rparr>"
    by (simp add: annual_composite_median_def filterMetadata_equals_year bs)
  then show ?thesis
    using v by (simp add: median_eq Let_def)
qed

theorem annual_composite_median_value_witness:
  "(\<exists>comp. annual_composite_median sample_collection ''2009'' = Inr comp \<and>
          props comp ''year'' = Some ''2009'' \<and>
          pixel_value (bands comp) ''NIR'' (0, 0) = Some (3 / 4)) \<and>
   (\<exists>comp. annual_composite_median sample_collection ''2010'' = Inr comp \<and>
          props comp ''year'' = Some ''2010'' \<and>
          pixel_value (bands comp) ''NIR'' (0, 0) = Some (9 / 10))"
proof -
  have nir: "''NIR'' \<in> set reflectance_bands"
    by (simp add: reflectance_bands_def)
  from annual_composite_median_value [OF sample_collection_bands nir, of "(0, 0)"]
  have even: "\<exists>comp. annual_composite_median sample_collection ''2009'' = Inr comp \<and>
          props comp ''year'' = Some ''2009'' \<and>
          pixel_value (bands comp) ''NIR'' (0, 0) = Some (3 / 4)"
    by (simp add: sample_contributions_NIR)
  from annual_composite_median_value [OF sample_collection_bands_2010 nir, of "(0, 0)"]
  have odd: "\<exists>comp. annual_composite_median sample_collection ''2010'' = Inr comp \<and>
          props comp ''year'' = Some ''2010'' \<and>
          pixel_value (bands comp) ''NIR'' (0, 0) = Some (9 / 10)"
    by (simp add: sample_contributions_NIR_2010)
  from even odd show ?thesis ..
qed

text \<open>
  C4: the maximum-index composite of a year is, at every pixel, the maximum of the
  unmasked per-scene indices of exactly the scenes whose year label equals the year, the
  index being computed scene by scene before the reduction; it is masked where no scene
  contributes. Two contributing scenes with indices 3/10 and 7/10 give 7/10.
\<close>

theorem annual_composite_maximum_ndvi_value:
  assumes "list_all (\<lambda>i. map_of (bands i) ''NIR'' \<noteq> None \<and> map_of (bands i) ''red'' \<noteq> None)
             (filter (\<lambda>i. props i ''year'' = Some year) collection)"
  shows "\<exists>comp. annual_composite_maximum_ndvi collection year = Inr comp \<and>
           props comp ''year'' = Some year \<and>
           pixel_value (bands comp) ''nd'' p =
             (if index_contributions collection year p = [] then None
              else Some (Max (set (index_contributions collection year p)))) \<and>
           (map (\<lambda>i. scene_index i p) (filter (\<lambda>i. props i ''year'' = Some year) collection) =
              [Some (3 / 10), Some (7 / 10)] \<longrightarrow>
            pixel_value (bands comp) ''nd'' p = Some (7 / 10))"
proof -
  let ?sel = "filter (\<lambda>i. props i ''year'' = Some year) collection"
  from ee_map_ndvi [OF assms, of p] obtain indices where
    ind: "ee_map ndvi ?sel = Inr indices"
    and names: "list_all (\<lambda>j. map fst (bands j) = [''nd'']) indices"
    and vals: "map (\<lambda>j. pixel_value (bands j) ''nd'' p) indices = map (\<lambda>i. scene_index i p) ?sel"
    by blast
  have "''nd'' \<in> set [''nd'']" by simp
  from reduce_images_pixel [where r = maximum and p = p, OF names this maximum_Nil] obtain bs where
    bs: "reduce_images maximum indices = Inr bs"
    and v: "pixel_value bs ''nd'' p = maximum (index_contributions collection year p)"
    unfolding index_contributions_def vals by blast
  have comp: "annual_composite_maximum_ndvi collection year = Inr \<lparr>bands = bs, props = [''year'' \<mapsto> year]\<rparr>"
    by (simp add: annual_composite_maximum_ndvi_def filterMetadata_equals_year ind bs)
  have two: "map (\<lambda>i. scene_index i p) ?sel = [Some (3 / 10), Some (7 / 10)] \<longrightarrow>
            pixel_value bs ''nd'' p = Some (7 / 10)"
    by (simp add: v index_contributions_def unmasked_def maximum_def)
  show ?thesis
    unfolding comp using v two by (simp add: maximum_eq)
qed

theorem annual_composite_maximum_ndvi_value_witness:
  "\<exists>comp. annual_composite_maximum_ndvi sample_collection ''2009'' = Inr comp \<and>
          props comp ''year'' = Some ''2009'' \<and>
          pixel_value (bands comp) ''nd'' (0, 0) = Some (7 / 10)"
  using annual_composite_maximum_ndvi_value [OF sample_has_NIR_red, of "(0, 0)"]
  by (simp add: index_contributions_def sample_indices unmasked_def)

text \<open>
  C8: for a year that no scene of the collection is labelled with, both compositors
  return an image (no error) in which every band is masked at every pixel.
\<close>

theorem empty_year_composites:
  assumes "filterMetadata_equals collection ''year'' year = []"
  shows "(\<exists>comp. annual_composite_median collection year = Inr comp \<and>
            props comp ''year'' = Some year \<and> pixel_value (bands comp) b p = None) \<and>
         (\<exists>comp. annual_composite_maximum_ndvi collection year = Inr comp \<and>
            props comp ''year'' = Some year \<and> pixel_value (bands comp) b p = None)"
  using assms
  by (simp add: annual_composite_median_def annual_composite_maximum_ndvi_def reduce_images_def)

theorem empty_year_composites_witness:
  "filterMetadata_equals sample_collection ''year'' ''2011'' = [] \<and>
   (\<exists>comp. annual_composite_median sample_collection ''2011'' = Inr comp \<and>
      props comp ''year'' = Some ''2011'' \<and> pixel_value (bands comp) ''NIR'' (0, 0) = None) \<and>
   (\<exists>comp. annual_composite_maximum_ndvi sample_collection ''2011'' = Inr comp \<and>
      props comp ''year'' = Some ''2011'' \<and> pixel_value (bands comp) ''nd'' (0, 0) = None)"
proof -
  have e: "filterMetadata_equals sample_collection ''year'' ''2011'' = []"
    by (simp add: filterMetadata_equals_def sample_collection_def sample_image_def clip_def)
  from empty_year_composites [OF e, of "''NIR''" "(0, 0)"]
    empty_year_composites [OF e, of "''nd''" "(0, 0)"] e
  show ?thesis by blast
qed

text \<open>
  C7: the combined collection consists, in order, of the preprocessed surviving scenes of
  the first archive followed by those of the second, one image per surviving scene and
  nothing removed, where a scene survives exactly if its footprint meets the region, its
  date lies in 1995-01-01 to 2015-12-31, its day of the year lies in 121 to 273 and its
  cloud cover is below 80. In the sample run the same scene is in both archives and
  appears twice in the result.
\<close>

theorem lt5_le7_collection_survivors:
  "(lt5_le7_collection lt5_archive le7_archive detroit_msa = Inr coll) =
     list_all2 (\<lambda>s i. preprocess s = Inr i)
       (filter (survives detroit_msa) lt5_archive @ filter (survives detroit_msa) le7_archive) coll
   \<and> (lt5_le7_collection lt5_archive le7_archive detroit_msa = Inr coll \<longrightarrow>
        length coll = length (filter (survives detroit_msa) lt5_archive) +
                      length (filter (survives detroit_msa) le7_archive))"
proof (intro conjI impI)
  show "(lt5_le7_collection lt5_archive le7_archive detroit_msa = Inr coll) =
     list_all2 (\<lambda>s i. preprocess s = Inr i)
       (filter (survives detroit_msa) lt5_archive @ filter (survives detroit_msa) le7_archive) coll"
    by (rule lt5_le7_collection_Inr_iff)
next
  assume "lt5_le7_collection lt5_archive le7_archive detroit_msa = Inr coll"
  then have "list_all2 (\<lambda>s i. preprocess s = Inr i)
       (filter (survives detroit_msa) lt5_archive @ filter (survives detroit_msa) le7_archive) coll"
    by (simp only: lt5_le7_collection_Inr_iff)
  from list_all2_lengthD [OF this]
  show "length coll = length (filter (survives detroit_msa) lt5_archive) +
                      length (filter (survives detroit_msa) le7_archive)"
    by simp
qed

theorem lt5_le7_collection_survivors_witness:
  "\<exists>i. preprocess clear_scene = Inr i \<and>
        lt5_le7_collection [clear_scene]
          [clear_scene, clear_scene\<lparr>CLOUD_COVER_LAND := 90\<rparr>,
           clear_scene\<lparr>time_start := \<lparr>t_year = 2015, t_doy = 365, t_millis = 0\<rparr>\<rparr>,
           clear_scene\<lparr>footprint := [(5, 5)]\<rparr>]
          [(0, 0)] = Inr [i, i] \<and>
        length [i, i] = 1 + 1"
proof -
  from preprocess_example_scene obtain i where i: "preprocess clear_scene = Inr i"
    unfolding clear_scene_def by blast
  have one: "filter (survives [(0, 0)]) [clear_scene] = [clear_scene]"
    by (simp add: survives_clear)
  have "list_all2 (\<lambda>s i. preprocess s = Inr i)
          (filter (survives [(0, 0)]) [clear_scene] @
           filter (survives [(0, 0)])
             [clear_scene, clear_scene\<lparr>CLOUD_COVER_LAND := 90\<rparr>,
              clear_scene\<lparr>time_start := \<lparr>t_year = 2015, t_doy = 365, t_millis = 0\<rparr>\<rparr>,
              clear_scene\<lparr>footprint := [(5, 5)]\<rparr>])
          [i, i]"
    unfolding one survives_clear_scene by (simp add: i)
  with lt5_le7_collection_survivors [of "[clear_scene]" _ "[(0, 0)]" "[i, i]"]
  have "lt5_le7_collection [clear_scene]
          [clear_scene, clear_scene\<lparr>CLOUD_COVER_LAND := 90\<rparr>,
           clear_scene\<lparr>time_start := \<lparr>t_year = 2015, t_doy = 365, t_millis = 0\<rparr>\<rparr>,
           clear_scene\<lparr>footprint := [(5, 5)]\<rparr>]
          [(0, 0)] = Inr [i, i]"
    by blast
  with i show ?thesis by simp
qed

text \<open>
  C10, as amended: \<^verbatim>\<open>cloud_mask\<close> divides the quality band by 10000 like every other
  band and keeps it as the seventh band of its output, so an unmasked output quality
  value is the raw value divided by 10000 and differs from the raw value whenever that is
  non-zero; the assembler's selection drops the band, so every image of the assembled
  collections has exactly the six reflectance bands, and so has the median composite of
  every year that has scenes (a year without scenes gives an image with no band).
\<close>

theorem quality_band_rescaled_then_dropped:
  "(cloud_mask img = Inr out \<longrightarrow>
      map fst (bands out) = reflectance_bands @ [''pixel_qa''] \<and>
      (pixel_value (bands out) ''pixel_qa'' p = Some v \<longrightarrow>
         (\<exists>k. pixel_value (raw_bands img) ''pixel_qa'' p = Some k \<and>
              v = real_of_int k / 10000 \<and> (k \<noteq> 0 \<longrightarrow> v \<noteq> real_of_int k))) \<and>
      (\<exists>sel. select_reflectance out = Inr sel \<and> bands sel = butlast (bands out) \<and>
             map fst (bands sel) = reflectance_bands)) \<and>
   (lt5_le7_collection lt5 le7 detroit_msa = Inr coll \<longrightarrow>
      list_all (\<lambda>i. map fst (bands i) = reflectance_bands) coll \<and>
      (\<exists>comp. annual_composite_median coll year = Inr comp \<and>
          map fst (bands comp) =
            (if filterMetadata_equals coll ''year'' year = [] then [] else reflectance_bands)))"
proof (intro conjI impI)
  assume out: "cloud_mask img = Inr out"
  show names: "map fst (bands out) = reflectance_bands @ [''pixel_qa'']"
    by (rule cloud_mask_band_names [OF out])
  have "select_reflectance out = Inr (out\<lparr>bands := butlast (bands out)\<rparr>)"
    by (rule select_reflectance_of_names [OF names])
  moreover have "map fst (butlast (bands out)) = reflectance_bands"
    using names by (simp add: map_butlast)
  ultimately show "\<exists>sel. select_reflectance out = Inr sel \<and> bands sel = butlast (bands out) \<and>
             map fst (bands sel) = reflectance_bands"
    by simp
  assume v: "pixel_value (bands out) ''pixel_qa'' p = Some v"
  have "(''pixel_qa'', ''pixel_qa'') \<in> set (zip [''B1'', ''B2'', ''B3'', ''B4'', ''B5'', ''B7'', ''pixel_qa'']
                               [''blue'', ''green'', ''red'', ''NIR'', ''SWIR1'', ''SWIR2'', ''pixel_qa''])"
    by simp
  from cloud_mask_pixel [OF out this, of p] v
  have "preprocessed_value img ''pixel_qa'' p = Some v"
    by simp
  then obtain k where k: "pixel_value (raw_bands img) ''pixel_qa'' p = Some k"
    and vk: "v = real_of_int k / 10000"
    by (cases "pixel_value (raw_bands img) ''pixel_qa'' p")
      (auto simp: preprocessed_value_def split: option.splits if_splits)
  have "k \<noteq> 0 \<longrightarrow> v \<noteq> real_of_int k"
    by (simp add: vk)
  with k vk show "\<exists>k. pixel_value (raw_bands img) ''pixel_qa'' p = Some k \<and>
              v = real_of_int k / 10000 \<and> (k \<noteq> 0 \<longrightarrow> v \<noteq> real_of_int k)"
    by blast
next
  assume coll: "lt5_le7_collection lt5 le7 detroit_msa = Inr coll"
  show all: "list_all (\<lambda>i. map fst (bands i) = reflectance_bands) coll"
    by (rule assembled_bands [OF coll])
  show "\<exists>comp. annual_composite_median coll year = Inr comp \<and>
          map fst (bands comp) =
            (if filterMetadata_equals coll ''year'' year = [] then [] else reflectance_bands)"
    by (rule median_composite_bands [OF all])
qed

theorem quality_band_rescaled_then_dropped_witness:
  "\<exists>out coll comp.
      cloud_mask clear_scene = Inr out \<and>
      map fst (bands out) = reflectance_bands @ [''pixel_qa''] \<and>
      pixel_value (raw_bands clear_scene) ''pixel_qa'' (0, 0) = Some 66 \<and>
      pixel_value (bands out) ''pixel_qa'' (0, 0) = Some (33 / 5000) \<and>
      lt5_le7_collection [clear_scene] [] [(0, 0)] = Inr coll \<and>
      list_all (\<lambda>i. map fst (bands i) = reflectance_bands) coll \<and>
      annual_composite_median coll ''2009'' = Inr comp \<and>
      map fst (bands comp) = reflectance_bands"
proof -
  obtain out where out: "cloud_mask clear_scene = Inr out"
    by (simp add: clear_scene_def cloud_mask_example_scene)
  have raw: "pixel_value (raw_bands clear_scene) ''pixel_qa'' (0, 0) = Some 66"
    by (simp add: clear_scene_def example_scene_def constant_image_def pixel_value_def)
  have qa: "pixel_value (bands out) ''pixel_qa'' (0, 0) = Some (33 / 5000)"
    using out
    by (auto simp: clear_scene_def cloud_mask_example_scene pixel_value_def clear_sky_mask_constant
        constant_image_def)
  from preprocess_example_scene obtain i where i: "preprocess clear_scene = Inr i"
    unfolding clear_scene_def by blast
  have coll: "lt5_le7_collection [clear_scene] [] [(0, 0)] = Inr [i]"
    by (simp add: lt5_le7_collection_Inr_iff survives_clear i)
  from preprocess_Inr [OF i] out have year: "props i ''year'' = Some ''2009''"
    by (auto simp: clear_scene_def cloud_mask_example_scene)
  then have sel: "filterMetadata_equals [i] ''year'' ''2009'' \<noteq> []"
    by (simp add: filterMetadata_equals_def)
  note t = quality_band_rescaled_then_dropped [of clear_scene out "(0, 0)" "33 / 5000"
      "[clear_scene]" "[]" "[(0, 0)]" "[i]" "''2009''"]
  from t out have names: "map fst (bands out) = reflectance_bands @ [''pixel_qa'']"
    by blast
  from t coll have all: "list_all (\<lambda>i. map fst (bands i) = reflectance_bands) [i]"
    by blast
  from t coll sel obtain comp where "annual_composite_median [i] ''2009'' = Inr comp"
    "map fst (bands comp) = reflectance_bands"
    by auto
  with out names raw qa coll all show ?thesis
    by blast
qed

text \<open>
  C10 as stated fails in two places. Where the raw quality value is 0 the rescaled value
  is 0 as well, so the retained quality band equals the raw bitfield there. And the
  collection assembled from archives without a surviving scene is empty, so its
  composite has no band at all, not the six reflectance bands.
\<close>

theorem quality_band_zero_unchanged:
  "(\<exists>out. cloud_mask (example_scene (constant_image 0)) = Inr out \<and>
          pixel_value (raw_bands (example_scene (constant_image 0))) ''pixel_qa'' (0, 0) = Some 0 \<and>
          pixel_value (bands out) ''pixel_qa'' (0, 0) = Some (real_of_int 0)) \<and>
   (\<exists>comp. lt5_le7_collection [] [] [(0, 0)] = Inr [] \<and>
           annual_composite_median [] ''2009'' = Inr comp \<and>
           map fst (bands comp) = [] \<and> map fst (bands comp) \<noteq> reflectance_bands)"
proof
  show "\<exists>out. cloud_mask (example_scene (constant_image 0)) = Inr out \<and>
          pixel_value (raw_bands (example_scene (constant_image 0))) ''pixel_qa'' (0, 0) = Some 0 \<and>
          pixel_value (bands out) ''pixel_qa'' (0, 0) = Some (real_of_int 0)"
    by (simp add: cloud_mask_example_scene pixel_value_def clear_sky_mask_constant constant_image_def)
      (simp add: example_scene_def)
  show "\<exists>comp. lt5_le7_collection [] [] [(0, 0)] = Inr [] \<and>
           annual_composite_median [] ''2009'' = Inr comp \<and>
           map fst (bands comp) = [] \<and> map fst (bands comp) \<noteq> reflectance_bands"
    by (simp add: lt5_le7_collection_Inr_iff annual_composite_median_def filterMetadata_equals_def
        reduce_images_def reflectance_bands_def)
qed

text \<open>
  C6: for a collection whose images have NIR and red bands (as those of every assembled
  collection have, by \<open>assembled_has_NIR_red\<close>), the export driver starts 21
  jobs, one for each year from 1995 to 2015 in this order (the descriptions are the
  strings \<^verbatim>\<open>LT5-LE7_SR_Maximum_NDVI_<year>\<close> and are pairwise different). The job of
  year \<open>1995 + n\<close> exports that year's maximum-index composite, clipped to the region
  and with both static masks applied, at scale 30; its image is masked at every pixel
  where the surface-water layer has water and at every pixel where the non-cultivated
  mask is 0.
\<close>

theorem export_driver_jobs:
  assumes "list_all (\<lambda>i. map_of (bands i) ''NIR'' \<noteq> None \<and> map_of (bands i) ''red'' \<noteq> None) lt5_le7"
  shows "\<exists>tasks. export_driver lt5_le7 max_extent cdl detroit_msa = Inr tasks \<and>
           length tasks = 21 \<and>
           map description tasks =
             map (\<lambda>y. ''LT5-LE7_SR_Maximum_NDVI_'' @ format_d y) [1995..2015] \<and>
           distinct (map description tasks) \<and>
           (n < 21 \<longrightarrow>
              (\<exists>comp. annual_composite_maximum_ndvi lt5_le7 (format_d (1995 + int n)) = Inr comp \<and>
                 tasks ! n =
                   \<lparr>task_image =
                      updateMask_image
                        (updateMask_image (clip comp detroit_msa) (water max_extent)) cdl,
                    description = ''LT5-LE7_SR_Maximum_NDVI_'' @ format_d (1995 + int n),
                    region = bounds detroit_msa,
                    folder = ''EarthEngine'',
                    scale = 30,
                    crs = ''EPSG:32617''\<rparr> \<and>
                 ((\<exists>t. max_extent p = Some t \<and> t \<noteq> 0) \<or> cdl p = Some 0 \<longrightarrow>
                    pixel_value (bands (task_image (tasks ! n))) b p = None)))"
proof -
  define job where "job c y =
      \<lparr>task_image = updateMask_image (updateMask_image c (water max_extent)) cdl,
       description = ''LT5-LE7_SR_Maximum_NDVI_'' @ format_d y,
       region = bounds detroit_msa,
       folder = ''EarthEngine'',
       scale = 30,
       crs = ''EPSG:32617''\<rparr>" for c y
  have step: "\<exists>c. annual_composite_maximum_ndvi lt5_le7 y = Inr c \<and> True" for y
    using maximum_composite [OF assms, of y "(0, 0)"] by blast
  have "\<exists>cs. ee_map (annual_composite_maximum_ndvi lt5_le7) combined_dates = Inr cs \<and>
          list_all2 (\<lambda>y c. True) combined_dates cs"
    by (rule ee_map_all) (rule step)
  then obtain cs where cs: "ee_map (annual_composite_maximum_ndvi lt5_le7) combined_dates = Inr cs"
    by (elim exE conjE)
  then have all: "list_all2 (\<lambda>y c. annual_composite_maximum_ndvi lt5_le7 y = Inr c) combined_dates cs"
    by (simp only: ee_map_Inr_iff)
  from list_all2_lengthD [OF all] have len: "length cs = 21"
    by (simp add: combined_dates_length)
  have nth: "annual_composite_maximum_ndvi lt5_le7 (format_d (1995 + int k)) = Inr (cs ! k)"
    if "k < 21" for k
  proof -
    from that have "k < length combined_dates"
      by (simp add: combined_dates_length)
    from list_all2_nthD [OF all this] show ?thesis
      by (simp only: combined_dates_nth [OF that])
  qed
  let ?composites = "map (\<lambda>img. clip img detroit_msa) cs"
  have comps: "composites_ndvi_first lt5_le7 detroit_msa = Inr ?composites"
    by (simp add: composites_ndvi_first_def cs)
  let ?tasks = "map (\<lambda>i. job (clip (cs ! i) detroit_msa) (1995 + int i)) [0..<21]"
  have "export_tasks ?composites (water max_extent) cdl detroit_msa = Inr ?tasks"
    unfolding export_tasks_def length_map len
  proof (rule ee_map_total)
    fix i assume "i \<in> set [0..<21]"
    then have i: "i < 21" by simp
    have "python_index ?composites i = Inr (clip (cs ! i) detroit_msa)"
      using i by (simp add: python_index_def len)
    moreover have "python_index [1995..2015] i = Inr (1995 + int i)"
      unfolding python_index_def year_length using i by (simp only: year_nth if_True)
    ultimately show "ee_bind (python_index ?composites i) (\<lambda>img.
        let img_masked = updateMask_image (updateMask_image img (water max_extent)) cdl
        in ee_bind (python_index [1995..2015] i) (\<lambda>year.
           Inr \<lparr>task_image = img_masked,
                description = ''LT5-LE7_SR_Maximum_NDVI_'' @ format_d year,
                region = bounds detroit_msa,
                folder = ''EarthEngine'',
                scale = 30,
                crs = ''EPSG:32617''\<rparr>)) = Inr (job (clip (cs ! i) detroit_msa) (1995 + int i))"
      by (simp add: job_def Let_def)
  qed
  with comps have driver: "export_driver lt5_le7 max_extent cdl detroit_msa = Inr ?tasks"
    by (simp add: export_driver_def)
  have length: "length ?tasks = 21"
    by simp
  have "map description ?tasks =
          map (\<lambda>y. ''LT5-LE7_SR_Maximum_NDVI_'' @ format_d y) (map (\<lambda>i. 1995 + int i) [0..<21])"
    by (simp add: job_def)
  then have descr: "map description ?tasks =
          map (\<lambda>y. ''LT5-LE7_SR_Maximum_NDVI_'' @ format_d y) [1995..2015]"
    by (simp only: years_from_indices)
  have dist: "distinct (map description ?tasks)"
    unfolding descr by (rule descriptions_distinct)
  have each: "\<exists>comp. annual_composite_maximum_ndvi lt5_le7 (format_d (1995 + int n)) = Inr comp \<and>
                 ?tasks ! n =
                   \<lparr>task_image =
                      updateMask_image
                        (updateMask_image (clip comp detroit_msa) (water max_extent)) cdl,
                    description = ''LT5-LE7_SR_Maximum_NDVI_'' @ format_d (1995 + int n),
                    region = bounds detroit_msa,
                    folder = ''EarthEngine'',
                    scale = 30,
                    crs = ''EPSG:32617''\<rparr> \<and>
                 ((\<exists>t. max_extent p = Some t \<and> t \<noteq> 0) \<or> cdl p = Some 0 \<longrightarrow>
                    pixel_value (bands (task_image (?tasks ! n))) b p = None)"
    if n: "n < 21"
  proof -
    have tn: "?tasks ! n = job (clip (cs ! n) detroit_msa) (1995 + int n)"
      using n by simp
    have masked: "(\<exists>t. max_extent p = Some t \<and> t \<noteq> 0) \<or> cdl p = Some 0 \<longrightarrow>
            pixel_value (bands (task_image (job (clip (cs ! n) detroit_msa) (1995 + int n)))) b p = None"
      by (auto simp: job_def masked_export_pixel water_indicates split: option.splits)
    show ?thesis
      unfolding tn
      by (rule exI [of _ "cs ! n"]) (intro conjI nth [OF n] masked, simp add: job_def)
  qed
  show ?thesis
    by (rule exI [of _ ?tasks]) (intro conjI impI driver length descr dist each)
qed

theorem export_driver_jobs_witness:
  "\<exists>tasks. export_driver sample_collection sample_extent (constant_image 1) [(0, 0), (1, 1)] = Inr tasks \<and>
      length tasks = 21 \<and>
      description (tasks ! 14) = ''LT5-LE7_SR_Maximum_NDVI_2009'' \<and>
      scale (tasks ! 14) = 30 \<and>
      pixel_value (bands (task_image (tasks ! 14))) ''nd'' (0, 0) = None \<and>
      pixel_value (bands (task_image (tasks ! 14))) ''nd'' (1, 1) = Some (7 / 10)"
proof -
  have water: "\<exists>t. sample_extent (0, 0) = Some t \<and> t \<noteq> 0"
    by (simp add: sample_extent_def)
  from export_driver_jobs [OF sample_all_NIR_red, of sample_extent "constant_image 1"
      "[(0, 0), (1, 1)]" 14 "(0, 0)" "''nd''"]
  obtain tasks comp where
    driver: "export_driver sample_collection sample_extent (constant_image 1) [(0, 0), (1, 1)] = Inr tasks"
    and len: "length tasks = 21"
    and comp: "annual_composite_maximum_ndvi sample_collection ''2009'' = Inr comp"
    and job: "tasks ! 14 =
                   \<lparr>task_image =
                      updateMask_image
                        (updateMask_image (clip comp [(0, 0), (1, 1)]) (water sample_extent))
                        (constant_image 1),
                    description = ''LT5-LE7_SR_Maximum_NDVI_'' @ ''2009'',
                    region = bounds [(0, 0), (1, 1)],
                    folder = ''EarthEngine'',
                    scale = 30,
                    crs = ''EPSG:32617''\<rparr>"
    and masked: "(\<exists>t. sample_extent (0, 0) = Some t \<and> t \<noteq> 0) \<or> constant_image 1 (0, 0) = Some 0 \<longrightarrow>
                    pixel_value (bands (task_image (tasks ! 14))) ''nd'' (0, 0) = None"
    unfolding format_d_2009 by auto
  from masked water have m: "pixel_value (bands (task_image (tasks ! 14))) ''nd'' (0, 0) = None"
    by blast
  from maximum_composite [OF sample_all_NIR_red, of "''2009''" "(1, 1)"] comp
  have "pixel_value (bands comp) ''nd'' (1, 1) = maximum (index_contributions sample_collection ''2009'' (1, 1))"
    by auto
  then have v: "pixel_value (bands comp) ''nd'' (1, 1) = Some (7 / 10)"
    by (simp add: index_contributions_def sample_indices unmasked_def maximum_def)
  have w: "water sample_extent (1, 1) = Some 1"
    by (rule water_elsewhere) (simp add: sample_extent_def)
  have "pixel_value (bands (task_image (tasks ! 14))) ''nd'' (1, 1) = Some (7 / 10)"
    unfolding job by (simp add: masked_export_pixel pixel_value_clip constant_image_def w v)
  with driver len m job show ?thesis
    by simp
qed

end
